theory Spec2Isabelle
  imports
    Main
    "HOL-Library.Char_ord"
    "HOL-Library.List_Lexorder"
    "HOL-Library.Multiset"
begin

section \<open>Data model\<close>

text \<open>
  The two tables, as both schemas declare them (\<^verbatim>\<open>initializeTables\<close> of the Supabase
  adapter, \<^verbatim>\<open>db.exec\<close> of the better-sqlite3 server):
  \<^verbatim>\<open>exercise(id PK, name NOT NULL, gif)\<close> and
  \<^verbatim>\<open>workout(id PK, date NOT NULL, exercise_id NOT NULL REFERENCES exercise(id), duration)\<close>.
  A nullable column is an \<open>option\<close>. The integers of the model are unbounded: the
  hosted store, whose INTEGER columns hold 32 bits, checks every number that enters it,
  while the INTEGER columns of the embedded store hold 64 bits, which the model does not
  bound. Text is ordered by character code, which is the order of every collation on
  dates written YYYY-MM-DD.
\<close>

record exercise_row =
  e_id :: int
  e_name :: string
  e_gif :: "string option"

record workout_row =
  w_id :: int
  w_date :: string
  w_exercise_id :: int
  w_duration :: "int option"

text \<open>
  The store is the content of the two tables, in insertion order, and the two id
  generators: the sequences behind the SERIAL columns of the hosted store, and the
  \<^verbatim>\<open>sqlite_sequence\<close> entry of the AUTOINCREMENT column of the embedded store (whose
  \<^verbatim>\<open>exercise\<close> table has a plain INTEGER PRIMARY KEY and does not use \<open>exercise_seq\<close>).
  Each generator holds the last value it handed out.
\<close>

record store =
  exercise :: "exercise_row list"
  workout :: "workout_row list"
  exercise_seq :: int
  workout_seq :: int

text \<open>A JavaScript error object: what the handlers read of it is \<open>code\<close> and \<open>message\<close>.\<close>

datatype error = Error (code: "string option") (message: string)

definition not_null_violation :: "string \<Rightarrow> error" where
  "not_null_violation column = Error (Some ''23502'') (''null value violates not-null constraint: '' @ column)"

definition foreign_key_violation :: error where
  "foreign_key_violation = Error (Some ''23503'') ''violates foreign key constraint''"

definition unique_violation :: error where
  "unique_violation = Error (Some ''23505'') ''duplicate key value violates unique constraint''"

definition value_too_long :: "string \<Rightarrow> error" where
  "value_too_long limit =
     Error (Some ''22001'') (''value too long for type character varying('' @ limit @ '')'')"

definition numeric_out_of_range :: error where
  "numeric_out_of_range = Error (Some ''22003'') ''value is out of range for type integer''"

definition sequence_exhausted :: error where
  "sequence_exhausted = Error (Some ''2200H'') ''nextval: reached maximum value of sequence''"

definition invalid_integer :: error where
  "invalid_integer = Error (Some ''22P02'') ''invalid input syntax for type integer: NaN''"

definition no_single_row :: error where
  "no_single_row = Error (Some ''PGRST116'') ''JSON object requested, multiple (or no) rows returned''"

definition type_error :: "string \<Rightarrow> error" where
  "type_error msg = Error None msg"

text \<open>
  An element \<^verbatim>\<open>{id, duration}\<close> of the \<^verbatim>\<open>exercises\<close> array of a workout save; a
  property that is absent (or null) is \<open>None\<close>.
\<close>

record entry =
  en_id :: "int option"
  en_duration :: "int option"

text \<open>The objects the adapter returns as acknowledgments.\<close>

record ack =
  success :: bool

record update_ack = ack +
  updated :: bool

record delete_ack = ack +
  deleted :: bool

record delete_workout_ack = ack +
  deletedRows :: nat

section \<open>The hosted store: statements of the REST client\<close>

text \<open>
  Every call of the client is one SQL statement, atomic on its own: it returns an error
  and leaves the tables as they were, or it succeeds. Only the errors that the schema
  itself raises are modelled (a constraint, a value that does not fit its column, a
  sequence at its end); a failure of the network is not. Sequence values consumed by a
  failed statement are not modelled either: they only leave gaps in later ids.

  The columns \<^verbatim>\<open>id\<close>, \<^verbatim>\<open>exercise_id\<close> and \<^verbatim>\<open>duration\<close> are INTEGER and the ids are
  SERIAL: they hold 32-bit integers, and the store refuses any other number, in a row to
  insert and in a filter \<^verbatim>\<open>.eq(column, v)\<close> alike. A filter takes \<open>None\<close> for the number
  NaN, which the store refuses to read as an integer.

  A VARCHAR(n) column takes a string of at most n characters; of a longer string it
  takes the first n when the rest is spaces, and refuses it otherwise.
\<close>

definition int4 :: "int \<Rightarrow> bool" where
  "int4 i = (- 2147483648 \<le> i \<and> i \<le> 2147483647)"

definition int4_opt :: "int option \<Rightarrow> bool" where
  "int4_opt v = (case v of None \<Rightarrow> True | Some i \<Rightarrow> int4 i)"

definition int4_column :: "int option \<Rightarrow> error + int option" where
  \<comment> \<open>a value for an INTEGER column\<close>
  "int4_column v = (if int4_opt v then Inr v else Inl numeric_out_of_range)"

definition int4_filter :: "int option \<Rightarrow> error + int" where
  \<comment> \<open>the value of a filter on an INTEGER column\<close>
  "int4_filter v =
     (case v of
        None \<Rightarrow> Inl invalid_integer
      | Some i \<Rightarrow> if int4 i then Inr i else Inl numeric_out_of_range)"

definition varchar :: "nat \<Rightarrow> string \<Rightarrow> string \<Rightarrow> error + string" where
  \<comment> \<open>a value for a VARCHAR(n) column; \<open>limit\<close> is n as the error message writes it\<close>
  "varchar n limit str =
     (if length str \<le> n then Inr str
      else if list_all (\<lambda>c. c = CHR '' '') (drop n str) then Inr (take n str)
      else Inl (value_too_long limit))"

text \<open>The row that \<^verbatim>\<open>saveWorkout\<close> builds for the insert: \<^verbatim>\<open>{date, exercise_id, duration}\<close>.\<close>

record workout_insert =
  wi_date :: string
  wi_exercise_id :: "int option"
  wi_duration :: "int option"

definition check_workout_insert ::
  "exercise_row list \<Rightarrow> workout_insert \<Rightarrow> error + (string \<times> int)" where
  \<comment> \<open>the types and the constraints of \<^verbatim>\<open>workout\<close> on a new row; a row that passes is
      stored with the date and the exercise id returned\<close>
  "check_workout_insert es r =
     (case varchar 10 ''10'' (wi_date r) of
        Inl e \<Rightarrow> Inl e
      | Inr d \<Rightarrow>
          (case int4_column (wi_exercise_id r) of
             Inl e \<Rightarrow> Inl e
           | Inr exercise_id \<Rightarrow>
               (case int4_column (wi_duration r) of
                  Inl e \<Rightarrow> Inl e
                | Inr duration \<Rightarrow>
                    (case exercise_id of
                       None \<Rightarrow> Inl (not_null_violation ''exercise_id'')
                     | Some i \<Rightarrow>
                         if i \<in> e_id ` set es then Inr (d, i)
                         else Inl foreign_key_violation))))"

fun insert_rows ::
  "exercise_row list \<Rightarrow> workout_insert list \<Rightarrow> workout_row list \<Rightarrow> int
    \<Rightarrow> error + (workout_row list \<times> int)" where
  "insert_rows es [] tbl seq = Inr (tbl, seq)"
| "insert_rows es (r # rs) tbl seq =
     (case check_workout_insert es r of
        Inl e \<Rightarrow> Inl e
      | Inr (d, i) \<Rightarrow>
          if 2147483647 < seq + 1 then Inl sequence_exhausted
          else if seq + 1 \<in> w_id ` set tbl then Inl unique_violation
          else insert_rows es rs
                 (tbl @ [\<lparr>w_id = seq + 1, w_date = d, w_exercise_id = i,
                          w_duration = wi_duration r\<rparr>])
                 (seq + 1))"

definition insert_workout :: "workout_insert list \<Rightarrow> store \<Rightarrow> (error + unit) \<times> store" where
  \<comment> \<open>\<^verbatim>\<open>supabase.from("workout").insert(workoutData)\<close>: one INSERT of all the rows\<close>
  "insert_workout rows s =
     (case insert_rows (exercise s) rows (workout s) (workout_seq s) of
        Inl e \<Rightarrow> (Inl e, s)
      | Inr (tbl, seq) \<Rightarrow> (Inr (), s\<lparr>workout := tbl, workout_seq := seq\<rparr>))"

definition delete_workout_eq_date :: "string \<Rightarrow> store \<Rightarrow> (error + nat) \<times> store" where
  \<comment> \<open>\<^verbatim>\<open>supabase.from("workout").delete({count: "exact"}).eq("date", date)\<close>\<close>
  "delete_workout_eq_date date s =
     (Inr (length (filter (\<lambda>w. w_date w = date) (workout s))),
      s\<lparr>workout := filter (\<lambda>w. w_date w \<noteq> date) (workout s)\<rparr>)"

definition insert_exercise :: "string \<Rightarrow> string \<Rightarrow> store \<Rightarrow> (error + exercise_row) \<times> store" where
  \<comment> \<open>\<^verbatim>\<open>supabase.from("exercise").insert({name, gif}).select().single()\<close>\<close>
  "insert_exercise name gif s =
     (case varchar 255 ''255'' name of
        Inl e \<Rightarrow> (Inl e, s)
      | Inr n \<Rightarrow>
          (case varchar 255 ''255'' gif of
             Inl e \<Rightarrow> (Inl e, s)
           | Inr g \<Rightarrow>
               if 2147483647 < exercise_seq s + 1 then (Inl sequence_exhausted, s)
               else if exercise_seq s + 1 \<in> e_id ` set (exercise s)
               then (Inl unique_violation, s)
               else let row = \<lparr>e_id = exercise_seq s + 1, e_name = n, e_gif = Some g\<rparr>
                    in (Inr row,
                        s\<lparr>exercise := exercise s @ [row],
                          exercise_seq := exercise_seq s + 1\<rparr>)))"

definition update_exercise_eq_id ::
  "int option \<Rightarrow> string \<Rightarrow> string \<Rightarrow> store \<Rightarrow> (error + exercise_row list) \<times> store" where
  \<comment> \<open>\<^verbatim>\<open>supabase.from("exercise").update({name, gif}).eq("id", id).select()\<close>; the new
      values are checked against their columns in the rows that take them\<close>
  "update_exercise_eq_id id' name gif s =
     (case int4_filter id' of
        Inl e \<Rightarrow> (Inl e, s)
      | Inr i \<Rightarrow>
          if filter (\<lambda>e. e_id e = i) (exercise s) = [] then (Inr [], s)
          else (case varchar 255 ''255'' name of
                  Inl e \<Rightarrow> (Inl e, s)
                | Inr n \<Rightarrow>
                    (case varchar 255 ''255'' gif of
                       Inl e \<Rightarrow> (Inl e, s)
                     | Inr g \<Rightarrow>
                         let upd = (\<lambda>e. if e_id e = i then e\<lparr>e_name := n, e_gif := Some g\<rparr>
                                         else e)
                         in (Inr (map upd (filter (\<lambda>e. e_id e = i) (exercise s))),
                             s\<lparr>exercise := map upd (exercise s)\<rparr>))))"

definition select_workout_id_eq_exercise_id :: "int option \<Rightarrow> store \<Rightarrow> error + int list" where
  \<comment> \<open>\<^verbatim>\<open>supabase.from("workout").select("id").eq("exercise_id", id)\<close>\<close>
  "select_workout_id_eq_exercise_id id' s =
     (case int4_filter id' of
        Inl e \<Rightarrow> Inl e
      | Inr i \<Rightarrow> Inr (map w_id (filter (\<lambda>w. w_exercise_id w = i) (workout s))))"

definition delete_exercise_eq_id :: "int option \<Rightarrow> store \<Rightarrow> (error + nat) \<times> store" where
  \<comment> \<open>\<^verbatim>\<open>supabase.from("exercise").delete({count: "exact"}).eq("id", id)\<close>; the foreign key
      of \<^verbatim>\<open>workout\<close> refuses the deletion of a referenced row\<close>
  "delete_exercise_eq_id id' s =
     (case int4_filter id' of
        Inl e \<Rightarrow> (Inl e, s)
      | Inr i \<Rightarrow>
          if (\<exists>e \<in> set (exercise s). e_id e = i) \<and> (\<exists>w \<in> set (workout s). w_exercise_id w = i)
          then (Inl foreign_key_violation, s)
          else (Inr (length (filter (\<lambda>e. e_id e = i) (exercise s))),
                s\<lparr>exercise := filter (\<lambda>e. e_id e \<noteq> i) (exercise s)\<rparr>))"

text \<open>
  A row of \<^verbatim>\<open>select("*, exercise:exercise_id(name, gif)")\<close>: the columns of the workout
  and, nested under \<^verbatim>\<open>exercise\<close>, the row that \<^verbatim>\<open>exercise_id\<close> references (null when
  there is none).
\<close>

record embedded_exercise =
  x_name :: string
  x_gif :: "string option"

record workout_embedded = workout_row +
  wx_exercise :: "embedded_exercise option"

definition embed_exercise :: "exercise_row list \<Rightarrow> workout_row \<Rightarrow> workout_embedded" where
  "embed_exercise es w =
     \<lparr>w_id = w_id w, w_date = w_date w, w_exercise_id = w_exercise_id w,
      w_duration = w_duration w,
      wx_exercise = map_option (\<lambda>e. \<lparr>x_name = e_name e, x_gif = e_gif e\<rparr>)
                      (find (\<lambda>e. e_id e = w_exercise_id w) es)\<rparr>"

definition select_workout_embedded_eq_date :: "string \<Rightarrow> store \<Rightarrow> error + workout_embedded list" where
  \<comment> \<open>\<^verbatim>\<open>....eq("date", date).order("id")\<close>\<close>
  "select_workout_embedded_eq_date date s =
     Inr (map (embed_exercise (exercise s))
            (sort_key w_id (filter (\<lambda>w. w_date w = date) (workout s))))"

definition select_exercise_order_id :: "store \<Rightarrow> error + exercise_row list" where
  \<comment> \<open>\<^verbatim>\<open>supabase.from("exercise").select("*").order("id")\<close>\<close>
  "select_exercise_order_id s = Inr (sort_key e_id (exercise s))"

definition select_exercise_eq_id_single ::
  "int option \<Rightarrow> store \<Rightarrow> exercise_row option \<times> error option" where
  \<comment> \<open>\<^verbatim>\<open>....eq("id", id).single()\<close>: the pair of \<^verbatim>\<open>data\<close> and \<^verbatim>\<open>error\<close>\<close>
  "select_exercise_eq_id_single id' s =
     (case int4_filter id' of
        Inl e \<Rightarrow> (None, Some e)
      | Inr i \<Rightarrow>
          (case filter (\<lambda>e. e_id e = i) (exercise s) of
             [e] \<Rightarrow> (Some e, None)
           | _ \<Rightarrow> (None, Some no_single_row)))"

definition select_workout_date_order_desc :: "store \<Rightarrow> error + string list" where
  \<comment> \<open>\<^verbatim>\<open>supabase.from("workout").select("date").order("date", {ascending: false})\<close>\<close>
  "select_workout_date_order_desc s = Inr (rev (sort (map w_date (workout s))))"

section \<open>The adapter of the hosted store (db.js)\<close>

text \<open>
  A function that only reads returns \<open>error + result\<close>; one that writes returns the
  result together with the store it leaves, also when it throws.
\<close>

definition getAllExercises :: "store \<Rightarrow> error + exercise_row list" where
  "getAllExercises s =
     (case select_exercise_order_id s of Inl error \<Rightarrow> Inl error | Inr data \<Rightarrow> Inr data)"

definition getExerciseById :: "int option \<Rightarrow> store \<Rightarrow> error + exercise_row option" where
  "getExerciseById id' s =
     (case select_exercise_eq_id_single id' s of
        (data, Some error) \<Rightarrow> if code error \<noteq> Some ''PGRST116'' then Inl error else Inr data
      | (data, None) \<Rightarrow> Inr data)"

text \<open>
  The record \<^verbatim>\<open>{...workout, name: workout.exercise.name, gif: workout.exercise.gif}\<close>.
  Reading \<^verbatim>\<open>name\<close> of a null \<^verbatim>\<open>exercise\<close> throws, and so does the whole \<^verbatim>\<open>map\<close>.
\<close>

record workout_flat = workout_embedded +
  wf_name :: string
  wf_gif :: "string option"

definition flatten :: "workout_embedded \<Rightarrow> error + workout_flat" where
  "flatten w =
     (case wx_exercise w of
        None \<Rightarrow> Inl (type_error ''Cannot read properties of null (reading name)'')
      | Some ex \<Rightarrow>
          Inr \<lparr>w_id = w_id w, w_date = w_date w, w_exercise_id = w_exercise_id w,
               w_duration = w_duration w, wx_exercise = Some ex,
               wf_name = x_name ex, wf_gif = x_gif ex\<rparr>)"

fun map_throw :: "('a \<Rightarrow> error + 'b) \<Rightarrow> 'a list \<Rightarrow> error + 'b list" where
  "map_throw f [] = Inr []"
| "map_throw f (x # xs) =
     (case f x of
        Inl e \<Rightarrow> Inl e
      | Inr y \<Rightarrow> (case map_throw f xs of Inl e \<Rightarrow> Inl e | Inr ys \<Rightarrow> Inr (y # ys)))"

definition getWorkoutByDate :: "string \<Rightarrow> store \<Rightarrow> error + workout_flat list" where
  "getWorkoutByDate date s =
     (case select_workout_embedded_eq_date date s of
        Inl error \<Rightarrow> Inl error
      | Inr data \<Rightarrow> map_throw flatten data)"

definition saveWorkout :: "string \<Rightarrow> entry list \<Rightarrow> store \<Rightarrow> (error + ack) \<times> store" where
  "saveWorkout date exercises s =
     (case delete_workout_eq_date date s of
        (Inl deleteError, s1) \<Rightarrow> (Inl deleteError, s1)
      | (Inr _, s1) \<Rightarrow>
          let workoutData =
                map (\<lambda>ex. \<lparr>wi_date = date, wi_exercise_id = en_id ex,
                           wi_duration = en_duration ex\<rparr>) exercises
          in (case insert_workout workoutData s1 of
                (Inl insertError, s2) \<Rightarrow> (Inl insertError, s2)
              | (Inr _, s2) \<Rightarrow> (Inr \<lparr>success = True\<rparr>, s2)))"

text \<open>
  \<^verbatim>\<open>[...new Set(xs)]\<close>: a Set keeps its elements in the order of their first insertion.
\<close>

fun Set_add_all :: "'a list \<Rightarrow> 'a list \<Rightarrow> 'a list" where
  "Set_add_all seen [] = seen"
| "Set_add_all seen (x # xs) = Set_add_all (if x \<in> set seen then seen else seen @ [x]) xs"

definition new_Set :: "'a list \<Rightarrow> 'a list" where
  "new_Set xs = Set_add_all [] xs"

definition getAllWorkoutDates :: "store \<Rightarrow> error + string list" where
  "getAllWorkoutDates s =
     (case select_workout_date_order_desc s of
        Inl error \<Rightarrow> Inl error
      | Inr data \<Rightarrow> let uniqueDates = new_Set data in Inr uniqueDates)"

definition deleteWorkout :: "string \<Rightarrow> store \<Rightarrow> (error + delete_workout_ack) \<times> store" where
  "deleteWorkout date s =
     (case delete_workout_eq_date date s of
        (Inl error, s') \<Rightarrow> (Inl error, s')
      | (Inr count', s') \<Rightarrow> (Inr \<lparr>success = True, deletedRows = count'\<rparr>, s'))"

definition addExercise :: "string \<Rightarrow> string \<Rightarrow> store \<Rightarrow> (error + exercise_row) \<times> store" where
  "addExercise name gif s =
     (case insert_exercise name gif s of
        (Inl error, s') \<Rightarrow> (Inl error, s')
      | (Inr data, s') \<Rightarrow> (Inr data, s'))"

definition updateExercise ::
  "int option \<Rightarrow> string \<Rightarrow> string \<Rightarrow> store \<Rightarrow> (error + update_ack) \<times> store" where
  "updateExercise id' name gif s =
     (case update_exercise_eq_id id' name gif s of
        (Inl error, s') \<Rightarrow> (Inl error, s')
      | (Inr data, s') \<Rightarrow> (Inr \<lparr>success = True, updated = (length data > 0)\<rparr>, s'))"

definition deleteExercise :: "int option \<Rightarrow> store \<Rightarrow> (error + delete_ack) \<times> store" where
  "deleteExercise id' s =
     (case select_workout_id_eq_exercise_id id' s of
        Inl checkError \<Rightarrow> (Inl checkError, s)
      | Inr workouts \<Rightarrow>
          if length workouts > 0
          then (Inl (Error None ''Cannot delete exercise that is used in workouts''), s)
          else (case delete_exercise_eq_id id' s of
                  (Inl error, s') \<Rightarrow> (Inl error, s')
                | (Inr count', s') \<Rightarrow> (Inr \<lparr>success = True, deleted = (count' > 0)\<rparr>, s')))"

section \<open>The request handler of the hosted store (server.js)\<close>

text \<open>
  What a handler reads of a request. A query parameter or a body field that is absent
  (or, in the body, null) is \<open>None\<close>; \<^verbatim>\<open>name\<close> and \<^verbatim>\<open>gif\<close> are strings when
  present, as their columns are. The field \<^verbatim>\<open>exercises\<close> is any JSON value, since the
  handler tests whether it is an array; the elements of an array are entries.
\<close>

datatype jsval =
    JUndefined
  | JNull
  | JBool bool
  | JNum int
  | JStr string
  | JObj
  | JArr "entry list"

fun truthy :: "jsval \<Rightarrow> bool" where
  "truthy JUndefined = False"
| "truthy JNull = False"
| "truthy (JBool b) = b"
| "truthy (JNum n) = (n \<noteq> 0)"
| "truthy (JStr str) = (str \<noteq> [])"
| "truthy JObj = True"
| "truthy (JArr xs) = True"

fun isArray :: "jsval \<Rightarrow> bool" where
  "isArray (JArr xs) = True"
| "isArray v = False"

fun elements :: "jsval \<Rightarrow> entry list" where
  "elements (JArr xs) = xs"
| "elements v = []"

definition truthy_str :: "string option \<Rightarrow> bool" where
  \<comment> \<open>a string is truthy unless it is empty; undefined and null are falsy\<close>
  "truthy_str v = (case v of None \<Rightarrow> False | Some str \<Rightarrow> str \<noteq> [])"

fun text_of :: "string option \<Rightarrow> string" where
  \<comment> \<open>the string of a parameter or field; the handlers read it after the test of truthiness only\<close>
  "text_of (Some str) = str"
| "text_of None = []"

record request =
  rq_method :: string
  q_action :: "string option"
  q_date :: "string option"
  q_id :: "string option"
  b_name :: "string option"
  b_gif :: "string option"
  b_exercises :: jsval

text \<open>A row of the join of the embedded store: \<^verbatim>\<open>SELECT w.*, e.name, e.gif\<close>.\<close>

record workout_join = workout_row +
  wj_name :: string
  wj_gif :: "string option"

text \<open>
  The JSON bodies of the responses, and a response: \<^verbatim>\<open>res.status(n).json(b)\<close>.
  \<open>Inserted\<close> is the body \<^verbatim>\<open>{id: result.lastInsertRowid, name, gif}\<close> of the embedded
  store, which repeats the name and the gif of the request.
\<close>

datatype payload =
    ErrorBody string
  | ExerciseList "exercise_row list"
  | Exercise exercise_row
  | Inserted int "string option" "string option"
  | WorkoutList "workout_flat list"
  | WorkoutRows "workout_join list"
  | DateList "string list"
  | Ack ack
  | UpdateAck update_ack
  | DeleteAck delete_ack
  | DeleteWorkoutAck delete_workout_ack

record response =
  status :: nat
  body :: payload

definition json :: "payload \<Rightarrow> response" where
  \<comment> \<open>\<^verbatim>\<open>res.json(b)\<close>: the status stays 200\<close>
  "json b = \<lparr>status = 200, body = b\<rparr>"

definition status_json :: "nat \<Rightarrow> payload \<Rightarrow> response" where
  "status_json n b = \<lparr>status = n, body = b\<rparr>"

text \<open>
  \<^verbatim>\<open>parseInt\<close>: leading white space, a sign, then the longest prefix of digits, in base 16
  after \<^verbatim>\<open>0x\<close> and in base 10 otherwise; \<open>None\<close> is NaN. (Only the ASCII white space is
  modelled, and the result is the integer itself, not its nearest double.)
\<close>

definition is_space :: "char \<Rightarrow> bool" where
  "is_space c = (c \<in> set [CHR '' '', CHR 0x09, CHR 0x0A, CHR 0x0B, CHR 0x0C, CHR 0x0D])"

definition digit_of :: "nat \<Rightarrow> char \<Rightarrow> nat option" where
  "digit_of radix c =
     (let n = (of_char c :: nat);
          d = (if 48 \<le> n \<and> n \<le> 57 then n - 48
               else if 97 \<le> n \<and> n \<le> 122 then n - 87
               else if 65 \<le> n \<and> n \<le> 90 then n - 55
               else 36)
      in if d < radix then Some d else None)"

fun digits :: "nat \<Rightarrow> string \<Rightarrow> nat option \<Rightarrow> nat option" where
  "digits radix [] acc = acc"
| "digits radix (c # cs) acc =
     (case digit_of radix c of
        None \<Rightarrow> acc
      | Some d \<Rightarrow> digits radix cs (Some (case acc of None \<Rightarrow> d | Some a \<Rightarrow> a * radix + d)))"

definition parseInt :: "string \<Rightarrow> int option" where
  "parseInt str =
     (let s0 = dropWhile is_space str;
          (neg, s1) = (case s0 of
                         [] \<Rightarrow> (False, [])
                       | c # cs \<Rightarrow> if c = CHR ''-'' then (True, cs)
                                  else if c = CHR ''+'' then (False, cs)
                                  else (False, s0));
          (radix, s2) = (case s1 of
                           c # x # cs \<Rightarrow>
                             if c = CHR ''0'' \<and> (x = CHR ''x'' \<or> x = CHR ''X'')
                             then (16, cs) else (10, s1)
                         | _ \<Rightarrow> (10, s1))
      in map_option (\<lambda>n. if neg then - int n else int n) (digits radix s2 None))"

definition invalid_action :: response where
  "invalid_action = status_json 400 (ErrorBody ''Invalid action or missing parameters'')"

definition handle_GET :: "request \<Rightarrow> store \<Rightarrow> (error + response) \<times> store" where
  "handle_GET req s =
     (if q_action req = Some ''exercises'' then
        (case getAllExercises s of
           Inl error \<Rightarrow> (Inl error, s)
         | Inr exercises \<Rightarrow> (Inr (json (ExerciseList exercises)), s))
      else if q_action req = Some ''exercise'' \<and> truthy_str (q_id req) then
        (case getExerciseById (parseInt (text_of (q_id req))) s of
           Inl error \<Rightarrow> (Inl error, s)
         | Inr None \<Rightarrow> (Inr (status_json 404 (ErrorBody ''Exercise not found'')), s)
         | Inr (Some ex) \<Rightarrow> (Inr (json (Exercise ex)), s))
      else if q_action req = Some ''workout'' \<and> truthy_str (q_date req) then
        (case getWorkoutByDate (text_of (q_date req)) s of
           Inl error \<Rightarrow> (Inl error, s)
         | Inr workouts \<Rightarrow> (Inr (json (WorkoutList workouts)), s))
      else if q_action req = Some ''dates'' then
        (case getAllWorkoutDates s of
           Inl error \<Rightarrow> (Inl error, s)
         | Inr dates \<Rightarrow> (Inr (json (DateList dates)), s))
      else (Inr invalid_action, s))"

definition handle_POST :: "request \<Rightarrow> store \<Rightarrow> (error + response) \<times> store" where
  "handle_POST req s =
     (if q_action req = Some ''workout'' \<and> truthy_str (q_date req) then
        (let exercises = b_exercises req in
         if \<not> truthy exercises \<or> \<not> isArray exercises
         then (Inr (status_json 400 (ErrorBody ''Exercises array is required'')), s)
         else (case saveWorkout (text_of (q_date req)) (elements exercises) s of
                 (Inl error, s') \<Rightarrow> (Inl error, s')
               | (Inr result, s') \<Rightarrow> (Inr (json (Ack result)), s')))
      else if q_action req = Some ''exercise'' then
        (if \<not> truthy_str (b_name req) \<or> \<not> truthy_str (b_gif req)
         then (Inr (status_json 400 (ErrorBody ''Name and gif URL are required'')), s)
         else (case addExercise (text_of (b_name req)) (text_of (b_gif req)) s of
                 (Inl error, s') \<Rightarrow> (Inl error, s')
               | (Inr newExercise, s') \<Rightarrow> (Inr (json (Exercise newExercise)), s')))
      else (Inr invalid_action, s))"

definition handle_PUT :: "request \<Rightarrow> store \<Rightarrow> (error + response) \<times> store" where
  "handle_PUT req s =
     (if q_action req = Some ''exercise'' \<and> truthy_str (q_id req) then
        (if \<not> truthy_str (b_name req) \<or> \<not> truthy_str (b_gif req)
         then (Inr (status_json 400 (ErrorBody ''Name and gif URL are required'')), s)
         else (case updateExercise (parseInt (text_of (q_id req))) (text_of (b_name req))
                      (text_of (b_gif req)) s of
                 (Inl error, s') \<Rightarrow> (Inl error, s')
               | (Inr result, s') \<Rightarrow>
                   if \<not> updated result
                   then (Inr (status_json 404 (ErrorBody ''Exercise not found'')), s')
                   else (Inr (json (UpdateAck result)), s')))
      else (Inr invalid_action, s))"

definition handle_DELETE :: "request \<Rightarrow> store \<Rightarrow> (error + response) \<times> store" where
  "handle_DELETE req s =
     (if q_action req = Some ''workout'' \<and> truthy_str (q_date req) then
        (case deleteWorkout (text_of (q_date req)) s of
           (Inl error, s') \<Rightarrow> (Inl error, s')
         | (Inr result, s') \<Rightarrow> (Inr (json (DeleteWorkoutAck result)), s'))
      else if q_action req = Some ''exercise'' \<and> truthy_str (q_id req) then
        (case deleteExercise (parseInt (text_of (q_id req))) s of
           (Inl error, s') \<Rightarrow> (Inl error, s')
         | (Inr result, s') \<Rightarrow>
             if \<not> deleted result
             then (Inr (status_json 404 (ErrorBody ''Exercise not found'')), s')
             else (Inr (json (DeleteAck result)), s'))
      else (Inr invalid_action, s))"

definition api_workout :: "request \<Rightarrow> store \<Rightarrow> response \<times> store" where
  \<comment> \<open>\<^verbatim>\<open>app.all("/api/workout", ...)\<close>: the switch on the method inside \<^verbatim>\<open>try\<close>, and
      the \<^verbatim>\<open>catch\<close> that answers 500 with the message of whatever was thrown\<close>
  "api_workout req s =
     (case (if rq_method req = ''GET'' then handle_GET req s
            else if rq_method req = ''POST'' then handle_POST req s
            else if rq_method req = ''PUT'' then handle_PUT req s
            else if rq_method req = ''DELETE'' then handle_DELETE req s
            else (Inr (status_json 405 (ErrorBody ''Method not allowed'')), s)) of
        (Inr res, s') \<Rightarrow> (res, s')
      | (Inl error, s') \<Rightarrow>
          (status_json 500
             (ErrorBody (if message error \<noteq> [] then message error
                         else ''Internal server error'')), s'))"

section \<open>The embedded store: statements of better-sqlite3\<close>

text \<open>
  A parameter bound to undefined or null is NULL (\<open>None\<close>), and \<^verbatim>\<open>col = NULL\<close> holds of no
  row. A route parameter compared with an integer column is the integer that the
  column's affinity makes of its text, \<open>None\<close> when the text is not a number, which
  equals no id. Foreign keys are enforced. A statement that fails changes nothing.
\<close>

definition not_null_failed :: "string \<Rightarrow> error" where
  "not_null_failed column =
     Error (Some ''SQLITE_CONSTRAINT_NOTNULL'') (''NOT NULL constraint failed: '' @ column)"

definition foreign_key_failed :: error where
  "foreign_key_failed = Error (Some ''SQLITE_CONSTRAINT_FOREIGNKEY'') ''FOREIGN KEY constraint failed''"

definition next_rowid :: "int list \<Rightarrow> int" where
  \<comment> \<open>INTEGER PRIMARY KEY: one more than the largest id in use, 1 in an empty table\<close>
  "next_rowid ids = (case ids of [] \<Rightarrow> 1 | i # rest \<Rightarrow> fold max rest i + 1)"

definition run_insert_exercise ::
  "string option \<Rightarrow> string option \<Rightarrow> store \<Rightarrow> (error + int) \<times> store" where
  \<comment> \<open>\<^verbatim>\<open>INSERT INTO exercise (name, gif) VALUES (?, ?)\<close>; returns \<^verbatim>\<open>lastInsertRowid\<close>\<close>
  "run_insert_exercise name gif s =
     (case name of
        None \<Rightarrow> (Inl (not_null_failed ''exercise.name''), s)
      | Some n \<Rightarrow>
          let rowid = next_rowid (map e_id (exercise s))
          in (Inr rowid,
              s\<lparr>exercise := exercise s @ [\<lparr>e_id = rowid, e_name = n, e_gif = gif\<rparr>]\<rparr>))"

definition run_update_exercise ::
  "string option \<Rightarrow> string option \<Rightarrow> int option \<Rightarrow> store \<Rightarrow> (error + nat) \<times> store" where
  \<comment> \<open>\<^verbatim>\<open>UPDATE exercise SET name = ?, gif = ? WHERE id = ?\<close>; returns \<^verbatim>\<open>changes\<close>\<close>
  "run_update_exercise name gif id' s =
     (let matches = (\<lambda>e. Some (e_id e) = id') in
      if filter matches (exercise s) = [] then (Inr 0, s)
      else (case name of
              None \<Rightarrow> (Inl (not_null_failed ''exercise.name''), s)
            | Some n \<Rightarrow>
                (Inr (length (filter matches (exercise s))),
                 s\<lparr>exercise := map (\<lambda>e. if matches e then e\<lparr>e_name := n, e_gif := gif\<rparr> else e)
                                  (exercise s)\<rparr>)))"

definition all_exercise :: "store \<Rightarrow> error + exercise_row list" where
  \<comment> \<open>\<^verbatim>\<open>SELECT * FROM exercise ORDER BY id\<close>\<close>
  "all_exercise s = Inr (sort_key e_id (exercise s))"

definition get_exercise :: "int option \<Rightarrow> store \<Rightarrow> error + exercise_row option" where
  \<comment> \<open>\<^verbatim>\<open>SELECT * FROM exercise WHERE id = ?\<close>, the first row or undefined\<close>
  "get_exercise id' s = Inr (find (\<lambda>e. Some (e_id e) = id') (exercise s))"

definition get_workout_count :: "int option \<Rightarrow> store \<Rightarrow> error + nat" where
  \<comment> \<open>\<^verbatim>\<open>SELECT COUNT(*) as count FROM workout WHERE exercise_id = ?\<close>\<close>
  "get_workout_count id' s = Inr (length (filter (\<lambda>w. Some (w_exercise_id w) = id') (workout s)))"

definition run_delete_exercise :: "int option \<Rightarrow> store \<Rightarrow> (error + nat) \<times> store" where
  \<comment> \<open>\<^verbatim>\<open>DELETE FROM exercise WHERE id = ?\<close>; returns \<^verbatim>\<open>changes\<close>\<close>
  "run_delete_exercise id' s =
     (if \<exists>e \<in> set (exercise s). Some (e_id e) = id' \<and>
           (\<exists>w \<in> set (workout s). w_exercise_id w = e_id e)
      then (Inl foreign_key_failed, s)
      else (Inr (length (filter (\<lambda>e. Some (e_id e) = id') (exercise s))),
            s\<lparr>exercise := filter (\<lambda>e. Some (e_id e) \<noteq> id') (exercise s)\<rparr>))"

definition all_workout_join :: "string \<Rightarrow> store \<Rightarrow> error + workout_join list" where
  \<comment> \<open>\<^verbatim>\<open>SELECT w.*, e.name, e.gif FROM workout w JOIN exercise e ON w.exercise_id = e.id
      WHERE w.date = ? ORDER BY w.id\<close>\<close>
  "all_workout_join date s =
     Inr (concat (map (\<lambda>w. map (\<lambda>e. \<lparr>w_id = w_id w, w_date = w_date w,
                                       w_exercise_id = w_exercise_id w,
                                       w_duration = w_duration w,
                                       wj_name = e_name e, wj_gif = e_gif e\<rparr>)
                                (filter (\<lambda>e. e_id e = w_exercise_id w) (exercise s)))
                    (sort_key w_id (filter (\<lambda>w. w_date w = date) (workout s)))))"

definition run_delete_workout :: "string option \<Rightarrow> store \<Rightarrow> (error + nat) \<times> store" where
  \<comment> \<open>\<^verbatim>\<open>DELETE FROM workout WHERE date = ?\<close>; returns \<^verbatim>\<open>changes\<close>\<close>
  "run_delete_workout date s =
     (Inr (length (filter (\<lambda>w. Some (w_date w) = date) (workout s))),
      s\<lparr>workout := filter (\<lambda>w. Some (w_date w) \<noteq> date) (workout s)\<rparr>)"

definition run_insert_workout ::
  "string option \<Rightarrow> int option \<Rightarrow> int option \<Rightarrow> store \<Rightarrow> (error + int) \<times> store" where
  \<comment> \<open>\<^verbatim>\<open>INSERT INTO workout (date, exercise_id, duration) VALUES (?, ?, ?)\<close>; AUTOINCREMENT
      gives one more than the largest id that the table ever held\<close>
  "run_insert_workout date exercise_id duration s =
     (case date of
        None \<Rightarrow> (Inl (not_null_failed ''workout.date''), s)
      | Some d \<Rightarrow>
          (case exercise_id of
             None \<Rightarrow> (Inl (not_null_failed ''workout.exercise_id''), s)
           | Some i \<Rightarrow>
               if i \<notin> e_id ` set (exercise s) then (Inl foreign_key_failed, s)
               else let rowid = fold max (map w_id (workout s)) (workout_seq s) + 1
                    in (Inr rowid,
                        s\<lparr>workout := workout s @ [\<lparr>w_id = rowid, w_date = d, w_exercise_id = i,
                                                    w_duration = duration\<rparr>],
                          workout_seq := rowid\<rparr>)))"

definition all_workout_dates :: "store \<Rightarrow> error + string list" where
  \<comment> \<open>\<^verbatim>\<open>SELECT DISTINCT date FROM workout ORDER BY date DESC\<close>; a row is its only
      column\<close>
  "all_workout_dates s = Inr (rev (sort (remdups (map w_date (workout s)))))"

definition transaction ::
  "(store \<Rightarrow> (error + 'a) \<times> store) \<Rightarrow> store \<Rightarrow> (error + 'a) \<times> store" where
  \<comment> \<open>\<^verbatim>\<open>db.transaction(fn)()\<close>: BEGIN, the function, then COMMIT when it returns, or
      ROLLBACK when it throws, and the exception goes on to the caller\<close>
  "transaction fn s =
     (case fn s of
        (Inl e, s') \<Rightarrow> (Inl e, s)
      | (Inr r, s') \<Rightarrow> (Inr r, s'))"

section \<open>The routes of the embedded store\<close>

definition catch_500 :: "(error + response) \<times> store \<Rightarrow> response \<times> store" where
  \<comment> \<open>\<^verbatim>\<open>catch (error) { res.status(500).json({ error: error.message }) }\<close>\<close>
  "catch_500 r =
     (case r of
        (Inr res, s') \<Rightarrow> (res, s')
      | (Inl error, s') \<Rightarrow> (status_json 500 (ErrorBody (message error)), s'))"

definition get_api_exercises :: "store \<Rightarrow> response \<times> store" where
  "get_api_exercises s =
     catch_500
       (case all_exercise s of
          Inl error \<Rightarrow> (Inl error, s)
        | Inr exercises \<Rightarrow> (Inr (json (ExerciseList exercises)), s))"

definition get_api_exercise :: "int option \<Rightarrow> store \<Rightarrow> response \<times> store" where
  "get_api_exercise id' s =
     catch_500
       (case get_exercise id' s of
          Inl error \<Rightarrow> (Inl error, s)
        | Inr None \<Rightarrow> (Inr (status_json 404 (ErrorBody ''Exercise not found'')), s)
        | Inr (Some ex) \<Rightarrow> (Inr (json (Exercise ex)), s))"

definition post_api_exercises :: "string option \<Rightarrow> string option \<Rightarrow> store \<Rightarrow> response \<times> store" where
  "post_api_exercises name gif s =
     catch_500
       (case run_insert_exercise name gif s of
          (Inl error, s') \<Rightarrow> (Inl error, s')
        | (Inr lastInsertRowid, s') \<Rightarrow>
            (Inr (json (Inserted lastInsertRowid name gif)), s'))"

definition put_api_exercises ::
  "int option \<Rightarrow> string option \<Rightarrow> string option \<Rightarrow> store \<Rightarrow> response \<times> store" where
  "put_api_exercises id' name gif s =
     catch_500
       (case run_update_exercise name gif id' s of
          (Inl error, s') \<Rightarrow> (Inl error, s')
        | (Inr changes, s') \<Rightarrow>
            if changes = 0
            then (Inr (status_json 404 (ErrorBody ''Exercise not found'')), s')
            else (Inr (json (Ack \<lparr>success = True\<rparr>)), s'))"

definition delete_api_exercises :: "int option \<Rightarrow> store \<Rightarrow> response \<times> store" where
  "delete_api_exercises id' s =
     catch_500
       (case get_workout_count id' s of
          Inl error \<Rightarrow> (Inl error, s)
        | Inr workoutCount \<Rightarrow>
            if workoutCount > 0
            then (Inr (status_json 400
                        (ErrorBody ''Cannot delete exercise that is used in workouts'')), s)
            else (case run_delete_exercise id' s of
                    (Inl error, s') \<Rightarrow> (Inl error, s')
                  | (Inr changes, s') \<Rightarrow>
                      if changes = 0
                      then (Inr (status_json 404 (ErrorBody ''Exercise not found'')), s')
                      else (Inr (json (Ack \<lparr>success = True\<rparr>)), s')))"

definition get_api_workouts :: "string \<Rightarrow> store \<Rightarrow> response \<times> store" where
  "get_api_workouts date s =
     catch_500
       (case all_workout_join date s of
          Inl error \<Rightarrow> (Inl error, s)
        | Inr workouts \<Rightarrow> (Inr (json (WorkoutRows workouts)), s))"

fun forEach_insert :: "string option \<Rightarrow> entry list \<Rightarrow> store \<Rightarrow> (error + unit) \<times> store" where
  "forEach_insert date [] s = (Inr (), s)"
| "forEach_insert date (ex # rest) s =
     (case run_insert_workout date (en_id ex) (en_duration ex) s of
        (Inl error, s') \<Rightarrow> (Inl error, s')
      | (Inr _, s') \<Rightarrow> forEach_insert date rest s')"

definition save_fn :: "string option \<Rightarrow> jsval \<Rightarrow> store \<Rightarrow> (error + unit) \<times> store" where
  \<comment> \<open>the function given to \<^verbatim>\<open>db.transaction\<close>: on an error the store is the one reached
      when it was thrown\<close>
  "save_fn date exercises s =
     (case run_delete_workout date s of
        (Inl error, s1) \<Rightarrow> (Inl error, s1)
      | (Inr _, s1) \<Rightarrow>
          (case exercises of
             JArr xs \<Rightarrow> forEach_insert date xs s1
           | JUndefined \<Rightarrow>
               (Inl (type_error ''Cannot read properties of undefined (reading forEach)''), s1)
           | JNull \<Rightarrow>
               (Inl (type_error ''Cannot read properties of null (reading forEach)''), s1)
           | _ \<Rightarrow> (Inl (type_error ''exercises.forEach is not a function''), s1)))"

definition post_api_workouts :: "string option \<Rightarrow> jsval \<Rightarrow> store \<Rightarrow> response \<times> store" where
  "post_api_workouts date exercises s =
     catch_500
       (case transaction (save_fn date exercises) s of
          (Inl error, s') \<Rightarrow> (Inl error, s')
        | (Inr _, s') \<Rightarrow> (Inr (json (Ack \<lparr>success = True\<rparr>)), s'))"

definition get_api_workout_dates :: "store \<Rightarrow> response \<times> store" where
  "get_api_workout_dates s =
     catch_500
       (case all_workout_dates s of
          Inl error \<Rightarrow> (Inl error, s)
        | Inr dates \<Rightarrow> (Inr (json (DateList dates)), s))"

definition delete_api_workouts :: "string \<Rightarrow> store \<Rightarrow> response \<times> store" where
  "delete_api_workouts date s =
     catch_500
       (case run_delete_workout (Some date) s of
          (Inl error, s') \<Rightarrow> (Inl error, s')
        | (Inr changes, s') \<Rightarrow>
            (Inr (json (DeleteWorkoutAck \<lparr>success = True, deletedRows = changes\<rparr>)), s'))"

section \<open>What the claims speak of\<close>

text \<open>
  The entry \<^verbatim>\<open>{id, duration}\<close> that a stored or returned row carries, and the row
  \<^verbatim>\<open>{date, exercise_id, duration}\<close> that a stored row was inserted from.
\<close>

definition entry_of :: "'a workout_row_scheme \<Rightarrow> entry" where
  "entry_of r = \<lparr>en_id = Some (w_exercise_id r), en_duration = w_duration r\<rparr>"

definition insert_of :: "workout_row \<Rightarrow> workout_insert" where
  "insert_of w =
     \<lparr>wi_date = w_date w, wi_exercise_id = Some (w_exercise_id w), wi_duration = w_duration w\<rparr>"

text \<open>
  A store to run the operations on: two exercises and three workout rows, two of them on
  2024-01-01, and the requests used on it.
\<close>

definition pushups :: exercise_row where
  "pushups = \<lparr>e_id = 1, e_name = ''Pushups'', e_gif = Some ''http://x/push.gif''\<rparr>"

definition squats :: exercise_row where
  "squats = \<lparr>e_id = 2, e_name = ''Squats'', e_gif = None\<rparr>"

definition sample_store :: store where
  "sample_store =
     \<lparr>exercise = [pushups, squats],
      workout = [\<lparr>w_id = 1, w_date = ''2024-01-01'', w_exercise_id = 1, w_duration = Some 60\<rparr>,
                 \<lparr>w_id = 2, w_date = ''2024-01-02'', w_exercise_id = 2, w_duration = Some 30\<rparr>,
                 \<lparr>w_id = 3, w_date = ''2024-01-01'', w_exercise_id = 2, w_duration = None\<rparr>],
      exercise_seq = 2, workout_seq = 3\<rparr>"

text \<open>The stores of the scenario of the specification, which starts from empty tables.\<close>

definition empty_store :: store where
  "empty_store = \<lparr>exercise = [], workout = [], exercise_seq = 0, workout_seq = 0\<rparr>"

definition store_with_pushups :: store where
  "store_with_pushups = empty_store\<lparr>exercise := [pushups], exercise_seq := 1\<rparr>"

definition store_with_workout :: store where
  "store_with_workout =
     store_with_pushups
       \<lparr>workout := [\<lparr>w_id = 1, w_date = ''2024-01-01'', w_exercise_id = 1, w_duration = Some 60\<rparr>],
        workout_seq := 1\<rparr>"

definition new_entries :: "entry list" where
  "new_entries = [\<lparr>en_id = Some 2, en_duration = Some 45\<rparr>, \<lparr>en_id = Some 1, en_duration = None\<rparr>]"

definition failing_entries :: "entry list" where
  \<comment> \<open>the second entry references no exercise\<close>
  "failing_entries =
     [\<lparr>en_id = Some 2, en_duration = Some 45\<rparr>, \<lparr>en_id = Some 99, en_duration = Some 10\<rparr>]"

definition big_duration_entries :: "entry list" where
  \<comment> \<open>the duration is one more than the largest 32-bit integer\<close>
  "big_duration_entries = [\<lparr>en_id = Some 1, en_duration = Some 2147483648\<rparr>]"

definition put_out_of_range :: request where
  \<comment> \<open>\<^verbatim>\<open>PUT /api/workout?action=exercise&id=2147483648\<close> with a name and a gif\<close>
  "put_out_of_range =
     \<lparr>rq_method = ''PUT'', q_action = Some ''exercise'', q_date = None,
      q_id = Some ''2147483648'', b_name = Some ''Plank'', b_gif = Some ''http://x/plank.gif'',
      b_exercises = JUndefined\<rparr>"

definition delete_pushups :: request where
  \<comment> \<open>\<^verbatim>\<open>DELETE /api/workout?action=exercise&id=1\<close>\<close>
  "delete_pushups =
     \<lparr>rq_method = ''DELETE'', q_action = Some ''exercise'', q_date = None, q_id = Some ''1'',
      b_name = None, b_gif = None, b_exercises = JUndefined\<rparr>"

definition put_plank :: request where
  \<comment> \<open>\<^verbatim>\<open>PUT /api/workout?action=exercise&id=7\<close> with a name and a gif\<close>
  "put_plank =
     \<lparr>rq_method = ''PUT'', q_action = Some ''exercise'', q_date = None, q_id = Some ''7'',
      b_name = Some ''Plank'', b_gif = Some ''http://x/plank.gif'', b_exercises = JUndefined\<rparr>"

definition post_no_gif :: request where
  \<comment> \<open>\<^verbatim>\<open>POST /api/workout?action=exercise\<close> with the body \<^verbatim>\<open>{"name": "Plank"}\<close>\<close>
  "post_no_gif =
     \<lparr>rq_method = ''POST'', q_action = Some ''exercise'', q_date = None, q_id = None,
      b_name = Some ''Plank'', b_gif = None, b_exercises = JUndefined\<rparr>"

definition post_no_exercises :: request where
  \<comment> \<open>\<^verbatim>\<open>POST /api/workout?action=workout&date=2024-01-01\<close> with the body
      \<^verbatim>\<open>{"exercises": "pushups"}\<close>\<close>
  "post_no_exercises =
     \<lparr>rq_method = ''POST'', q_action = Some ''workout'', q_date = Some ''2024-01-01'',
      q_id = None, b_name = None, b_gif = None, b_exercises = JStr ''pushups''\<rparr>"

definition post_empty_workout :: request where
  \<comment> \<open>\<^verbatim>\<open>POST /api/workout?action=workout&date=2024-01-01\<close> with the body
      \<^verbatim>\<open>{"exercises": []}\<close>\<close>
  "post_empty_workout =
     \<lparr>rq_method = ''POST'', q_action = Some ''workout'', q_date = Some ''2024-01-01'',
      q_id = None, b_name = None, b_gif = None, b_exercises = JArr []\<rparr>"

section \<open>The scenario of the specification\<close>

text \<open>
  Adding Pushups to the empty store gives it the id 1; the workout saved for 2024-01-01
  is read back with the name and the gif of Pushups; while it exists the exercise cannot
  be deleted; once the workout is deleted, it can.
\<close>

lemma scenario_add_save_read:
  "addExercise ''Pushups'' ''http://x/push.gif'' empty_store = (Inr pushups, store_with_pushups)"
  "saveWorkout ''2024-01-01'' [\<lparr>en_id = Some 1, en_duration = Some 60\<rparr>] store_with_pushups
     = (Inr \<lparr>success = True\<rparr>, store_with_workout)"
  "getWorkoutByDate ''2024-01-01'' store_with_workout
     = Inr [\<lparr>w_id = 1, w_date = ''2024-01-01'', w_exercise_id = 1, w_duration = Some 60,
             wx_exercise = Some \<lparr>x_name = ''Pushups'', x_gif = Some ''http://x/push.gif''\<rparr>,
             wf_name = ''Pushups'', wf_gif = Some ''http://x/push.gif''\<rparr>]"
  by (simp_all add: addExercise_def insert_exercise_def saveWorkout_def
        delete_workout_eq_date_def insert_workout_def check_workout_insert_def
        getWorkoutByDate_def select_workout_embedded_eq_date_def embed_exercise_def flatten_def
        empty_store_def store_with_pushups_def store_with_workout_def pushups_def Let_def
        varchar_def int4_column_def int4_opt_def int4_def)

lemma scenario_delete:
  "deleteExercise (Some 1) store_with_workout
     = (Inl (Error None ''Cannot delete exercise that is used in workouts''), store_with_workout)"
  "deleteWorkout ''2024-01-01'' store_with_workout
     = (Inr \<lparr>success = True, deletedRows = 1\<rparr>, store_with_pushups\<lparr>workout_seq := 1\<rparr>)"
  "deleteExercise (Some 1) (store_with_pushups\<lparr>workout_seq := 1\<rparr>)
     = (Inr \<lparr>success = True, deleted = True\<rparr>, empty_store\<lparr>exercise_seq := 1, workout_seq := 1\<rparr>)"
  by (simp_all add: deleteExercise_def select_workout_id_eq_exercise_id_def
        delete_exercise_eq_id_def deleteWorkout_def delete_workout_eq_date_def
        empty_store_def store_with_pushups_def store_with_workout_def pushups_def
        int4_filter_def int4_def)

section \<open>Distinct workout dates, newest first\<close>

lemma set_Set_add_all: "set (Set_add_all seen xs) = set seen \<union> set xs"
  by (induction xs arbitrary: seen) auto

lemma distinct_Set_add_all: "distinct seen \<Longrightarrow> distinct (Set_add_all seen xs)"
  by (induction xs arbitrary: seen) auto

lemma descending_Set_add_all:
  fixes xs :: "'a::linorder list"
  assumes "sorted_wrt (>) seen" and "sorted_wrt (\<ge>) xs"
    and "\<forall>a \<in> set seen. \<forall>b \<in> set xs. a \<ge> b"
  shows "sorted_wrt (>) (Set_add_all seen xs)"
  using assms
proof (induction xs arbitrary: seen)
  case Nil
  then show ?case by simp
next
  case (Cons x xs)
  show ?case
  proof (cases "x \<in> set seen")
    case True
    with Cons show ?thesis by simp
  next
    case False
    have "sorted_wrt (>) (seen @ [x])"
      using Cons.prems False by (auto simp: sorted_wrt_append le_less)
    moreover have "sorted_wrt (\<ge>) xs" using Cons.prems by simp
    moreover have "\<forall>a \<in> set (seen @ [x]). \<forall>b \<in> set xs. a \<ge> b"
      using Cons.prems by auto
    ultimately have "sorted_wrt (>) (Set_add_all (seen @ [x]) xs)"
      by (rule Cons.IH)
    with False show ?thesis by simp
  qed
qed

lemma new_Set_descending:
  fixes xs :: "'a::linorder list"
  assumes "sorted_wrt (\<ge>) xs"
  shows "distinct (new_Set xs)" "set (new_Set xs) = set xs" "sorted_wrt (>) (new_Set xs)"
  using assms
  by (simp_all add: new_Set_def distinct_Set_add_all set_Set_add_all descending_Set_add_all)

lemma rev_sort_descending: "sorted_wrt (\<ge>) (rev (sort (xs::'a::linorder list)))"
  by (simp add: sorted_wrt_rev)

lemma getAllWorkoutDates_props:
  "\<exists>ds. getAllWorkoutDates s = Inr ds \<and> distinct ds \<and> set ds = w_date ` set (workout s)
     \<and> sorted_wrt (>) ds"
  using new_Set_descending [OF rev_sort_descending, of "map w_date (workout s)"]
  by (simp add: getAllWorkoutDates_def select_workout_date_order_desc_def)

lemma get_api_workout_dates_props:
  "\<exists>ds. get_api_workout_dates s = (json (DateList ds), s) \<and> distinct ds
     \<and> set ds = w_date ` set (workout s) \<and> sorted_wrt (>) ds"
  by (auto simp add: get_api_workout_dates_def all_workout_dates_def catch_500_def
        sorted_wrt_rev strict_sorted_iff)

text \<open>
  C6. Whatever the store holds, the list of workout dates has every stored date exactly
  once (its elements are distinct and are the dates of the rows of \<^verbatim>\<open>workout\<close>), also when
  several rows share a date, and it is strictly descending. This holds of
  \<^verbatim>\<open>getAllWorkoutDates\<close>, which sorts in the store and removes the duplicates with a Set,
  and of \<^verbatim>\<open>GET /api/workout-dates\<close>, which asks the store for the distinct dates.
\<close>

theorem getAllWorkoutDates_unique_descending:
  "(\<exists>ds. getAllWorkoutDates s = Inr ds \<and> distinct ds \<and> set ds = w_date ` set (workout s)
       \<and> sorted_wrt (>) ds)
   \<and> (\<exists>ds. get_api_workout_dates s = (json (DateList ds), s) \<and> distinct ds
       \<and> set ds = w_date ` set (workout s) \<and> sorted_wrt (>) ds)"
  using getAllWorkoutDates_props [of s] get_api_workout_dates_props [of s] by blast

theorem getAllWorkoutDates_unique_descending_witness:
  "getAllWorkoutDates sample_store = Inr [''2024-01-02'', ''2024-01-01'']
   \<and> get_api_workout_dates sample_store
       = (json (DateList [''2024-01-02'', ''2024-01-01'']), sample_store)
   \<and> (\<exists>ds. getAllWorkoutDates sample_store = Inr ds \<and> distinct ds
         \<and> set ds = w_date ` set (workout sample_store) \<and> sorted_wrt (>) ds)
   \<and> (\<exists>ds. get_api_workout_dates sample_store = (json (DateList ds), sample_store)
         \<and> distinct ds \<and> set ds = w_date ` set (workout sample_store) \<and> sorted_wrt (>) ds)"
proof -
  have "getAllWorkoutDates sample_store = Inr [''2024-01-02'', ''2024-01-01'']"
    by (simp add: getAllWorkoutDates_def select_workout_date_order_desc_def sample_store_def
          new_Set_def)
  moreover have "get_api_workout_dates sample_store
       = (json (DateList [''2024-01-02'', ''2024-01-01'']), sample_store)"
    by (simp add: get_api_workout_dates_def all_workout_dates_def catch_500_def sample_store_def)
  ultimately show ?thesis
    using getAllWorkoutDates_unique_descending [of sample_store] by blast
qed

section \<open>Inserting workout rows\<close>

lemma check_workout_insert_InrD:
  "check_workout_insert es r = Inr (d, i) \<Longrightarrow> wi_exercise_id r = Some i \<and> i \<in> e_id ` set es"
  by (auto simp: check_workout_insert_def int4_column_def
        split: sum.splits if_splits option.splits)

lemma check_workout_insert_ok:
  assumes "length (wi_date r) \<le> 10" and "wi_exercise_id r = Some i" and "int4 i"
    and "int4_opt (wi_duration r)" and "i \<in> e_id ` set es"
  shows "check_workout_insert es r = Inr (wi_date r, i)"
  using assms
  by (simp add: check_workout_insert_def varchar_def int4_column_def int4_opt_def)

text \<open>
  A batch whose rows all pass the checks of the schema, with their dates as given, is
  inserted whole when the sequence is not behind the ids of the table and has room for
  the batch: the new rows follow the old ones, they carry the given values in the given
  order, and their ids ascend.
\<close>

lemma insert_rows_ok:
  assumes "\<forall>r \<in> set rows. \<exists>i. check_workout_insert es r = Inr (wi_date r, i)"
    and "\<forall>w \<in> set tbl. w_id w \<le> seq"
    and "seq + int (length rows) \<le> 2147483647"
  shows "\<exists>new. insert_rows es rows tbl seq = Inr (tbl @ new, seq + int (length rows))
           \<and> map insert_of new = rows
           \<and> sorted (map w_id new)
           \<and> (\<forall>w \<in> set new. seq < w_id w \<and> w_id w \<le> seq + int (length rows))"
  using assms
proof (induction rows arbitrary: tbl seq)
  case Nil
  then show ?case by simp
next
  case (Cons r rs)
  obtain i where chk: "check_workout_insert es r = Inr (wi_date r, i)"
    using Cons.prems(1) by auto
  then have i: "wi_exercise_id r = Some i"
    using check_workout_insert_InrD by blast
  let ?row = "\<lparr>w_id = seq + 1, w_date = wi_date r, w_exercise_id = i,
               w_duration = wi_duration r\<rparr>"
  have fresh: "seq + 1 \<notin> w_id ` set tbl" using Cons.prems(2) by fastforce
  have room: "\<not> 2147483647 < seq + 1" using Cons.prems(3) by simp
  have "\<forall>r \<in> set rs. \<exists>i. check_workout_insert es r = Inr (wi_date r, i)"
    using Cons.prems(1) by simp
  moreover have "\<forall>w \<in> set (tbl @ [?row]). w_id w \<le> seq + 1"
    using Cons.prems(2) by fastforce
  moreover have "seq + 1 + int (length rs) \<le> 2147483647"
    using Cons.prems(3) by simp
  ultimately obtain new where new:
      "insert_rows es rs (tbl @ [?row]) (seq + 1)
         = Inr ((tbl @ [?row]) @ new, seq + 1 + int (length rs))"
      "map insert_of new = rs" "sorted (map w_id new)"
      "\<forall>w \<in> set new. seq + 1 < w_id w \<and> w_id w \<le> seq + 1 + int (length rs)"
    using Cons.IH [of "tbl @ [?row]" "seq + 1"] by blast
  have "insert_rows es (r # rs) tbl seq = Inr (tbl @ (?row # new), seq + int (length (r # rs)))"
    using chk fresh room new(1) by (simp add: add.assoc)
  moreover have "map insert_of (?row # new) = r # rs"
    using new(2) i by (simp add: insert_of_def)
  moreover have "sorted (map w_id (?row # new))"
    using new(3,4) by (auto simp: less_imp_le)
  moreover have "\<forall>w \<in> set (?row # new). seq < w_id w \<and> w_id w \<le> seq + int (length (r # rs))"
    using new(4) by auto
  ultimately show ?case by (intro exI [of _ "?row # new"] conjI)
qed

text \<open>The sequence stays ahead of the ids, whatever \<^verbatim>\<open>saveWorkout\<close> is given.\<close>

lemma insert_rows_sequence_ahead:
  "insert_rows es rows tbl seq = Inr (tbl', seq') \<Longrightarrow> \<forall>w \<in> set tbl. w_id w \<le> seq
     \<Longrightarrow> \<forall>w \<in> set tbl'. w_id w \<le> seq'"
proof (induction rows arbitrary: tbl seq)
  case Nil
  then show ?case by simp
next
  case (Cons r rs)
  from Cons.prems(1) obtain d i where
    run: "insert_rows es rs
            (tbl @ [\<lparr>w_id = seq + 1, w_date = d, w_exercise_id = i,
                     w_duration = wi_duration r\<rparr>]) (seq + 1) = Inr (tbl', seq')"
    by (auto split: sum.splits if_splits)
  have "\<forall>w \<in> set (tbl @ [\<lparr>w_id = seq + 1, w_date = d, w_exercise_id = i,
                     w_duration = wi_duration r\<rparr>]). w_id w \<le> seq + 1"
    using Cons.prems(2) by fastforce
  from Cons.IH [OF run this] show ?case .
qed

lemma saveWorkout_sequence_ahead:
  assumes "saveWorkout date exercises s = (r, s')"
    and "\<forall>w \<in> set (workout s). w_id w \<le> workout_seq s"
  shows "\<forall>w \<in> set (workout s'). w_id w \<le> workout_seq s'"
proof -
  let ?old = "filter (\<lambda>w. w_date w \<noteq> date) (workout s)"
  let ?data = "map (\<lambda>ex. \<lparr>wi_date = date, wi_exercise_id = en_id ex,
                           wi_duration = en_duration ex\<rparr>) exercises"
  have old: "\<forall>w \<in> set ?old. w_id w \<le> workout_seq s" using assms(2) by simp
  show ?thesis
  proof (cases "insert_rows (exercise s) ?data ?old (workout_seq s)")
    case (Inl e)
    with assms(1) have "s' = s\<lparr>workout := ?old\<rparr>"
      by (simp add: saveWorkout_def delete_workout_eq_date_def insert_workout_def)
    with old show ?thesis by simp
  next
    case (Inr p)
    obtain tbl seq where p: "p = (tbl, seq)" by (cases p)
    with Inr assms(1) have s': "s' = s\<lparr>workout := tbl, workout_seq := seq\<rparr>"
      by (simp add: saveWorkout_def delete_workout_eq_date_def insert_workout_def)
    from Inr p have "insert_rows (exercise s) ?data ?old (workout_seq s) = Inr (tbl, seq)"
      by simp
    from insert_rows_sequence_ahead [OF this old] s' show ?thesis by simp
  qed
qed

lemma fold_max_ge_init: "(a::int) \<le> fold max xs a"
  by (induction xs arbitrary: a) (auto intro: order_trans [OF max.cobounded2])

lemma fold_max_ge_elem: "x \<in> set xs \<Longrightarrow> (x::int) \<le> fold max xs a"
proof (induction xs arbitrary: a)
  case Nil
  then show ?case by simp
next
  case (Cons y ys)
  show ?case
  proof (cases "x = y")
    case True
    have "y \<le> max y a" by simp
    also have "\<dots> \<le> fold max ys (max y a)" by (rule fold_max_ge_init)
    finally show ?thesis using True by simp
  next
    case False
    with Cons show ?thesis by simp
  qed
qed

lemma run_insert_workout_ok:
  assumes "i \<in> e_id ` set (exercise s)"
  shows "run_insert_workout (Some d) (Some i) dur s =
           (Inr (fold max (map w_id (workout s)) (workout_seq s) + 1),
            s\<lparr>workout := workout s @
                 [\<lparr>w_id = fold max (map w_id (workout s)) (workout_seq s) + 1,
                   w_date = d, w_exercise_id = i, w_duration = dur\<rparr>],
              workout_seq := fold max (map w_id (workout s)) (workout_seq s) + 1\<rparr>)"
  using assms by (simp add: run_insert_workout_def Let_def)

text \<open>
  The loop of the embedded store inserts every entry that references an exercise; each
  new id is above every id of the table, so the new rows ascend.
\<close>

lemma forEach_insert_ok:
  assumes "\<forall>ex \<in> set xs. \<exists>i. en_id ex = Some i \<and> i \<in> e_id ` set (exercise s)"
  shows "\<exists>new seq. forEach_insert (Some d) xs s
                      = (Inr (), s\<lparr>workout := workout s @ new, workout_seq := seq\<rparr>)
           \<and> map entry_of new = xs
           \<and> (\<forall>w \<in> set new. w_date w = d)
           \<and> sorted (map w_id new)
           \<and> (\<forall>w \<in> set new. \<forall>w' \<in> set (workout s). w_id w' < w_id w)"
  using assms
proof (induction xs arbitrary: s)
  case Nil
  show ?case
    by (rule exI [of _ "[]"], rule exI [of _ "workout_seq s"]) simp
next
  case (Cons ex rest)
  obtain i where i: "en_id ex = Some i" "i \<in> e_id ` set (exercise s)"
    using Cons.prems by auto
  let ?rowid = "fold max (map w_id (workout s)) (workout_seq s) + 1"
  let ?row = "\<lparr>w_id = ?rowid, w_date = d, w_exercise_id = i, w_duration = en_duration ex\<rparr>"
  let ?s1 = "s\<lparr>workout := workout s @ [?row], workout_seq := ?rowid\<rparr>"
  have step: "run_insert_workout (Some d) (en_id ex) (en_duration ex) s = (Inr ?rowid, ?s1)"
    using i run_insert_workout_ok [OF i(2)] by simp
  have "\<forall>ex \<in> set rest. \<exists>i. en_id ex = Some i \<and> i \<in> e_id ` set (exercise ?s1)"
    using Cons.prems by simp
  then obtain new seq where new:
      "forEach_insert (Some d) rest ?s1
         = (Inr (), ?s1\<lparr>workout := workout ?s1 @ new, workout_seq := seq\<rparr>)"
      "map entry_of new = rest" "\<forall>w \<in> set new. w_date w = d" "sorted (map w_id new)"
      "\<forall>w \<in> set new. \<forall>w' \<in> set (workout ?s1). w_id w' < w_id w"
    using Cons.IH [of ?s1] by blast
  have above: "\<forall>w' \<in> set (workout s). w_id w' < ?rowid"
  proof
    fix w' assume "w' \<in> set (workout s)"
    then have "w_id w' \<le> fold max (map w_id (workout s)) (workout_seq s)"
      by (intro fold_max_ge_elem) simp
    then show "w_id w' < ?rowid" by simp
  qed
  have "forEach_insert (Some d) (ex # rest) s
          = (Inr (), s\<lparr>workout := workout s @ (?row # new), workout_seq := seq\<rparr>)"
    using step new(1) by simp
  moreover have "map entry_of (?row # new) = ex # rest"
    using new(2) i(1) by (simp add: entry_of_def)
  moreover have "\<forall>w \<in> set (?row # new). w_date w = d" using new(3) by simp
  moreover have "sorted (map w_id (?row # new))"
    using new(4,5) by (auto simp: less_imp_le)
  moreover have "\<forall>w \<in> set (?row # new). \<forall>w' \<in> set (workout s). w_id w' < w_id w"
    using new(5) above by auto
  ultimately show ?case by (intro exI [of _ "?row # new"] exI [of _ seq] conjI)
qed

text \<open>Conversely, what a loop that returned has done.\<close>

lemma run_insert_workout_InrD:
  assumes "run_insert_workout date eid dur s = (Inr r, s')"
  shows "\<exists>row. s' = s\<lparr>workout := workout s @ [row], workout_seq := r\<rparr>
           \<and> Some (w_date row) = date \<and> Some (w_exercise_id row) = eid \<and> w_duration row = dur"
  using assms
  by (auto simp: run_insert_workout_def Let_def split: option.splits if_splits)

lemma forEach_insert_InrD:
  "forEach_insert date xs s = (Inr u, s') \<Longrightarrow>
     \<exists>new seq. s' = s\<lparr>workout := workout s @ new, workout_seq := seq\<rparr>
        \<and> map entry_of new = xs \<and> (\<forall>w \<in> set new. Some (w_date w) = date)"
proof (induction xs arbitrary: s)
  case Nil
  then have "s' = s" by simp
  then show ?case
    by (intro exI [of _ "[]"] exI [of _ "workout_seq s"]) simp
next
  case (Cons ex rest)
  from Cons.prems obtain r s1 where
      step: "run_insert_workout date (en_id ex) (en_duration ex) s = (Inr r, s1)"
      and rest: "forEach_insert date rest s1 = (Inr u, s')"
    by (auto split: prod.splits sum.splits)
  from run_insert_workout_InrD [OF step] obtain row where row:
      "s1 = s\<lparr>workout := workout s @ [row], workout_seq := r\<rparr>"
      "Some (w_date row) = date" "Some (w_exercise_id row) = en_id ex"
      "w_duration row = en_duration ex"
    by blast
  from Cons.IH [OF rest] obtain new seq where new:
      "s' = s1\<lparr>workout := workout s1 @ new, workout_seq := seq\<rparr>"
      "map entry_of new = rest" "\<forall>w \<in> set new. Some (w_date w) = date"
    by blast
  have "s' = s\<lparr>workout := workout s @ (row # new), workout_seq := seq\<rparr>"
    using new(1) row(1) by simp
  moreover have "map entry_of (row # new) = ex # rest"
    using new(2) row(3,4) by (simp add: entry_of_def)
  moreover have "\<forall>w \<in> set (row # new). Some (w_date w) = date"
    using new(3) row(2) by simp
  ultimately show ?case by (intro exI [of _ "row # new"] exI [of _ seq] conjI)
qed

lemma save_fn_InrD:
  assumes "save_fn date exercises s = (Inr u, s')"
  shows "\<exists>xs new seq. exercises = JArr xs
           \<and> s' = s\<lparr>workout := filter (\<lambda>w. Some (w_date w) \<noteq> date) (workout s) @ new,
                     workout_seq := seq\<rparr>
           \<and> map entry_of new = xs \<and> (\<forall>w \<in> set new. Some (w_date w) = date)"
proof -
  let ?s1 = "s\<lparr>workout := filter (\<lambda>w. Some (w_date w) \<noteq> date) (workout s)\<rparr>"
  from assms obtain xs where xs: "exercises = JArr xs"
      and run: "forEach_insert date xs ?s1 = (Inr u, s')"
    by (cases exercises) (auto simp: save_fn_def run_delete_workout_def)
  from forEach_insert_InrD [OF run] obtain new seq where new:
      "s' = ?s1\<lparr>workout := workout ?s1 @ new, workout_seq := seq\<rparr>"
      "map entry_of new = xs" "\<forall>w \<in> set new. Some (w_date w) = date"
    by blast
  have "s' = s\<lparr>workout := filter (\<lambda>w. Some (w_date w) \<noteq> date) (workout s) @ new,
                     workout_seq := seq\<rparr>"
    using new(1) by simp
  with xs new(2,3) show ?thesis
    by (intro exI [of _ xs] exI [of _ new] exI [of _ seq] conjI)
qed

section \<open>Reading the workout of a date\<close>

lemma find_exercise:
  "i \<in> e_id ` set es \<Longrightarrow> \<exists>e \<in> set es. find (\<lambda>e. e_id e = i) es = Some e \<and> e_id e = i"
  by (induction es) auto

lemma filter_exercise:
  "distinct (map e_id es) \<Longrightarrow> i \<in> e_id ` set es \<Longrightarrow>
     \<exists>e \<in> set es. filter (\<lambda>e. e_id e = i) es = [e] \<and> e_id e = i"
proof (induction es)
  case Nil
  then show ?case by simp
next
  case (Cons a es)
  show ?case
  proof (cases "e_id a = i")
    case True
    have "i \<notin> e_id ` set es" using True Cons.prems(1) by simp
    then have "\<forall>x \<in> set es. e_id x \<noteq> i" by blast
    then have "filter (\<lambda>e. e_id e = i) es = []"
      by (simp add: filter_empty_conv)
    with True show ?thesis by simp
  next
    case False
    with Cons show ?thesis by auto
  qed
qed

text \<open>
  When every row references an exercise, the \<^verbatim>\<open>map\<close> of \<^verbatim>\<open>getWorkoutByDate\<close> does not
  throw: it returns the rows, in their order, each with the name and the gif of the
  exercise that it references.
\<close>

lemma flatten_all:
  assumes "\<forall>w \<in> set ws. w_exercise_id w \<in> e_id ` set es"
  shows "\<exists>rows. map_throw flatten (map (embed_exercise es) ws) = Inr rows
           \<and> map workout_row.truncate rows = ws
           \<and> (\<forall>r \<in> set rows. \<exists>e \<in> set es. e_id e = w_exercise_id r
                  \<and> wf_name r = e_name e \<and> wf_gif r = e_gif e)"
  using assms
proof (induction ws)
  case Nil
  then show ?case by simp
next
  case (Cons w ws)
  obtain e where e: "e \<in> set es" "find (\<lambda>e. e_id e = w_exercise_id w) es = Some e"
      "e_id e = w_exercise_id w"
    using Cons.prems find_exercise [of "w_exercise_id w" es] by auto
  let ?r = "\<lparr>w_id = w_id w, w_date = w_date w, w_exercise_id = w_exercise_id w,
             w_duration = w_duration w,
             wx_exercise = Some \<lparr>x_name = e_name e, x_gif = e_gif e\<rparr>,
             wf_name = e_name e, wf_gif = e_gif e\<rparr>"
  have one: "flatten (embed_exercise es w) = Inr ?r"
    using e(2) by (simp add: flatten_def embed_exercise_def)
  obtain rows where rows: "map_throw flatten (map (embed_exercise es) ws) = Inr rows"
      "map workout_row.truncate rows = ws"
      "\<forall>r \<in> set rows. \<exists>e \<in> set es. e_id e = w_exercise_id r
                  \<and> wf_name r = e_name e \<and> wf_gif r = e_gif e"
    using Cons by auto
  have "map_throw flatten (map (embed_exercise es) (w # ws)) = Inr (?r # rows)"
    using one rows(1) by simp
  moreover have "map workout_row.truncate (?r # rows) = w # ws"
    using rows(2) by (simp add: workout_row.truncate_def)
  moreover have "\<forall>r \<in> set (?r # rows). \<exists>e \<in> set es. e_id e = w_exercise_id r
                  \<and> wf_name r = e_name e \<and> wf_gif r = e_gif e"
    using rows(3) e(1,3) by auto
  ultimately show ?case by (intro exI [of _ "?r # rows"] conjI)
qed

text \<open>The join gives the same, the ids of \<^verbatim>\<open>exercise\<close> being a primary key.\<close>

lemma join_all:
  assumes "distinct (map e_id es)" and "\<forall>w \<in> set ws. w_exercise_id w \<in> e_id ` set es"
  shows "\<exists>rows. concat (map (\<lambda>w. map (\<lambda>e. \<lparr>w_id = w_id w, w_date = w_date w,
                                       w_exercise_id = w_exercise_id w,
                                       w_duration = w_duration w,
                                       wj_name = e_name e, wj_gif = e_gif e\<rparr>)
                                (filter (\<lambda>e. e_id e = w_exercise_id w) es)) ws) = rows
           \<and> map workout_row.truncate rows = ws
           \<and> (\<forall>r \<in> set rows. \<exists>e \<in> set es. e_id e = w_exercise_id r
                  \<and> wj_name r = e_name e \<and> wj_gif r = e_gif e)"
  using assms(2)
proof (induction ws)
  case Nil
  then show ?case by simp
next
  case (Cons w ws)
  obtain e where e: "e \<in> set es" "filter (\<lambda>e. e_id e = w_exercise_id w) es = [e]"
      "e_id e = w_exercise_id w"
    using Cons.prems filter_exercise [OF assms(1), of "w_exercise_id w"] by auto
  have "\<forall>w \<in> set ws. w_exercise_id w \<in> e_id ` set es" using Cons.prems by simp
  from Cons.IH [OF this] e show ?case
    by (auto simp: workout_row.truncate_def)
qed

lemma map_w_id_truncate: "map w_id (map workout_row.truncate rows) = map w_id rows"
  by (simp add: workout_row.truncate_def)

lemma map_entry_of_truncate:
  "map workout_row.truncate rows = new \<Longrightarrow> map entry_of rows = map entry_of new"
  by (induction rows arbitrary: new) (auto simp: entry_of_def workout_row.truncate_def)

lemma insert_of_map_entries:
  "map insert_of new = map (\<lambda>ex. \<lparr>wi_date = date, wi_exercise_id = en_id ex,
                                   wi_duration = en_duration ex\<rparr>) E
   \<Longrightarrow> (\<forall>w \<in> set new. w_date w = date) \<and> map entry_of new = E"
proof (induction new arbitrary: E)
  case Nil
  then show ?case by simp
next
  case (Cons w ws)
  then obtain e es where E: "E = e # es" by (cases E) auto
  with Cons.prems have hd: "insert_of w = \<lparr>wi_date = date, wi_exercise_id = en_id e,
                                   wi_duration = en_duration e\<rparr>"
    and tl: "map insert_of ws = map (\<lambda>ex. \<lparr>wi_date = date, wi_exercise_id = en_id ex,
                                   wi_duration = en_duration ex\<rparr>) es"
    by simp_all
  have "w_date w = date" "entry_of w = e"
    using hd by (simp_all add: insert_of_def entry_of_def)
  with Cons.IH [OF tl] E show ?case by simp
qed

lemma filter_date_new:
  "\<forall>w \<in> set new. w_date w = date \<Longrightarrow>
     filter (\<lambda>w. w_date w = date) (filter (\<lambda>w. w_date w \<noteq> date) ws @ new) = new"
  by (simp add: filter_empty_conv filter_id_conv)

lemma filter_date_gone:
  "filter (\<lambda>w. w_date w = date) (filter (\<lambda>w. w_date w \<noteq> date) ws) = []"
  by (simp add: filter_empty_conv)

lemma filter_new_rows:
  "\<forall>w \<in> set new. Some (w_date w) = date \<Longrightarrow>
     filter (\<lambda>w. Some (w_date w) = date) (filter (\<lambda>w. Some (w_date w) \<noteq> date) ws @ new) = new
   \<and> filter (\<lambda>w. Some (w_date w) \<noteq> date) (filter (\<lambda>w. Some (w_date w) \<noteq> date) ws @ new)
       = filter (\<lambda>w. Some (w_date w) \<noteq> date) ws"
  by (simp add: filter_empty_conv filter_id_conv)

lemma entries_reference:
  assumes "\<forall>ex \<in> set E. \<exists>i. en_id ex = Some i \<and> i \<in> e_id ` set es"
    and "map entry_of new = E"
  shows "\<forall>w \<in> set new. w_exercise_id w \<in> e_id ` set es"
proof
  fix w assume "w \<in> set new"
  then have "entry_of w \<in> set E" using assms(2) by force
  then obtain i where "en_id (entry_of w) = Some i" "i \<in> e_id ` set es"
    using assms(1) by blast
  then show "w_exercise_id w \<in> e_id ` set es" by (simp add: entry_of_def)
qed

lemma getWorkoutByDate_props:
  assumes fk: "\<forall>w \<in> set (workout s). w_exercise_id w \<in> e_id ` set (exercise s)"
  shows "\<exists>rows. getWorkoutByDate date s = Inr rows
           \<and> sorted (map w_id rows)
           \<and> mset (map workout_row.truncate rows)
               = mset (filter (\<lambda>w. w_date w = date) (workout s))
           \<and> (\<forall>r \<in> set rows. \<exists>e \<in> set (exercise s). e_id e = w_exercise_id r
                  \<and> wf_name r = e_name e \<and> wf_gif r = e_gif e)"
proof -
  let ?ws = "sort_key w_id (filter (\<lambda>w. w_date w = date) (workout s))"
  have "\<forall>w \<in> set ?ws. w_exercise_id w \<in> e_id ` set (exercise s)" using fk by simp
  from flatten_all [OF this] obtain rows where rows:
      "map_throw flatten (map (embed_exercise (exercise s)) ?ws) = Inr rows"
      "map workout_row.truncate rows = ?ws"
      "\<forall>r \<in> set rows. \<exists>e \<in> set (exercise s). e_id e = w_exercise_id r
                  \<and> wf_name r = e_name e \<and> wf_gif r = e_gif e"
    by blast
  have "getWorkoutByDate date s = Inr rows"
    using rows(1) by (simp add: getWorkoutByDate_def select_workout_embedded_eq_date_def)
  moreover have "sorted (map w_id rows)"
  proof -
    have "map w_id rows = map w_id (map workout_row.truncate rows)"
      by (simp only: map_w_id_truncate)
    also have "\<dots> = map w_id ?ws" by (simp only: rows(2))
    finally show ?thesis by simp
  qed
  moreover have "mset (map workout_row.truncate rows)
                   = mset (filter (\<lambda>w. w_date w = date) (workout s))"
    using rows(2) by simp
  ultimately show ?thesis using rows(3) by (intro exI [of _ rows] conjI)
qed

lemma get_api_workouts_props:
  assumes fk: "\<forall>w \<in> set (workout s). w_exercise_id w \<in> e_id ` set (exercise s)"
    and pk: "distinct (map e_id (exercise s))"
  shows "\<exists>rows. get_api_workouts date s = (json (WorkoutRows rows), s)
           \<and> sorted (map w_id rows)
           \<and> mset (map workout_row.truncate rows)
               = mset (filter (\<lambda>w. w_date w = date) (workout s))
           \<and> (\<forall>r \<in> set rows. \<exists>e \<in> set (exercise s). e_id e = w_exercise_id r
                  \<and> wj_name r = e_name e \<and> wj_gif r = e_gif e)"
proof -
  let ?ws = "sort_key w_id (filter (\<lambda>w. w_date w = date) (workout s))"
  have "\<forall>w \<in> set ?ws. w_exercise_id w \<in> e_id ` set (exercise s)" using fk by simp
  from join_all [OF pk this] obtain rows where rows:
      "concat (map (\<lambda>w. map (\<lambda>e. \<lparr>w_id = w_id w, w_date = w_date w,
                                       w_exercise_id = w_exercise_id w,
                                       w_duration = w_duration w,
                                       wj_name = e_name e, wj_gif = e_gif e\<rparr>)
                                (filter (\<lambda>e. e_id e = w_exercise_id w) (exercise s))) ?ws) = rows"
      "map workout_row.truncate rows = ?ws"
      "\<forall>r \<in> set rows. \<exists>e \<in> set (exercise s). e_id e = w_exercise_id r
                  \<and> wj_name r = e_name e \<and> wj_gif r = e_gif e"
    by blast
  have "get_api_workouts date s = (json (WorkoutRows rows), s)"
    using rows(1) by (simp add: get_api_workouts_def all_workout_join_def catch_500_def)
  moreover have "sorted (map w_id rows)"
  proof -
    have "map w_id rows = map w_id (map workout_row.truncate rows)"
      by (simp only: map_w_id_truncate)
    also have "\<dots> = map w_id ?ws" by (simp only: rows(2))
    finally show ?thesis by simp
  qed
  moreover have "mset (map workout_row.truncate rows)
                   = mset (filter (\<lambda>w. w_date w = date) (workout s))"
    using rows(2) by simp
  ultimately show ?thesis using rows(3) by (intro exI [of _ rows] conjI)
qed

section \<open>Saving a workout replaces the workout of its date\<close>

lemma saveWorkout_replaces:
  assumes date: "length date \<le> 10"
    and ref: "\<forall>ex \<in> set E. \<exists>i. en_id ex = Some i \<and> i \<in> e_id ` set (exercise s)"
    and fit: "\<forall>ex \<in> set E. int4_opt (en_id ex) \<and> int4_opt (en_duration ex)"
    and seq: "\<forall>w \<in> set (workout s). w_id w \<le> workout_seq s"
    and room: "workout_seq s + int (length E) \<le> 2147483647"
  shows "\<exists>s' rows. saveWorkout date E s = (Inr \<lparr>success = True\<rparr>, s')
           \<and> getWorkoutByDate date s' = Inr rows \<and> map entry_of rows = E"
proof -
  let ?old = "filter (\<lambda>w. w_date w \<noteq> date) (workout s)"
  let ?data = "map (\<lambda>ex. \<lparr>wi_date = date, wi_exercise_id = en_id ex,
                           wi_duration = en_duration ex\<rparr>) E"
  have chk: "\<forall>r \<in> set ?data. \<exists>i. check_workout_insert (exercise s) r = Inr (wi_date r, i)"
  proof
    fix r assume "r \<in> set ?data"
    then obtain ex where ex: "ex \<in> set E"
        and r: "r = \<lparr>wi_date = date, wi_exercise_id = en_id ex, wi_duration = en_duration ex\<rparr>"
      by auto
    from ref ex obtain i where i: "en_id ex = Some i" "i \<in> e_id ` set (exercise s)" by blast
    from fit ex i(1) have "int4 i" "int4_opt (en_duration ex)"
      by (auto simp: int4_opt_def)
    then have "check_workout_insert (exercise s) r = Inr (wi_date r, i)"
      using date i r by (intro check_workout_insert_ok) simp_all
    then show "\<exists>i. check_workout_insert (exercise s) r = Inr (wi_date r, i)" ..
  qed
  have old: "\<forall>w \<in> set ?old. w_id w \<le> workout_seq s" using seq by simp
  have "workout_seq s + int (length ?data) \<le> 2147483647" using room by simp
  from insert_rows_ok [OF chk old this] obtain new where new:
      "insert_rows (exercise s) ?data ?old (workout_seq s)
         = Inr (?old @ new, workout_seq s + int (length ?data))"
      "map insert_of new = ?data" "sorted (map w_id new)"
    by blast
  let ?s' = "s\<lparr>workout := ?old @ new, workout_seq := workout_seq s + int (length ?data)\<rparr>"
  have save: "saveWorkout date E s = (Inr \<lparr>success = True\<rparr>, ?s')"
    using new(1) by (simp add: saveWorkout_def delete_workout_eq_date_def insert_workout_def)
  from insert_of_map_entries [OF new(2)]
  have dates: "\<forall>w \<in> set new. w_date w = date" and ents: "map entry_of new = E" by simp_all
  have sel: "sort_key w_id (filter (\<lambda>w. w_date w = date) (workout ?s')) = new"
    using filter_date_new [OF dates] new(3) by (simp add: sort_key_id_if_sorted)
  have "\<forall>w \<in> set new. w_exercise_id w \<in> e_id ` set (exercise s)"
    using entries_reference [OF ref ents] .
  from flatten_all [OF this] obtain rows where rows:
      "map_throw flatten (map (embed_exercise (exercise s)) new) = Inr rows"
      "map workout_row.truncate rows = new"
    by blast
  have "getWorkoutByDate date ?s' = Inr rows"
    using sel rows(1)
    by (simp add: getWorkoutByDate_def select_workout_embedded_eq_date_def)
  moreover have "map entry_of rows = E"
    using map_entry_of_truncate [OF rows(2)] ents by simp
  ultimately show ?thesis using save by blast
qed

lemma post_api_workouts_replaces:
  assumes ref: "\<forall>ex \<in> set E. \<exists>i. en_id ex = Some i \<and> i \<in> e_id ` set (exercise s)"
    and pk: "distinct (map e_id (exercise s))"
  shows "\<exists>s' rows. post_api_workouts (Some date) (JArr E) s = (json (Ack \<lparr>success = True\<rparr>), s')
           \<and> get_api_workouts date s' = (json (WorkoutRows rows), s')
           \<and> map entry_of rows = E"
proof -
  let ?old = "filter (\<lambda>w. w_date w \<noteq> date) (workout s)"
  let ?s1 = "s\<lparr>workout := ?old\<rparr>"
  have "\<forall>ex \<in> set E. \<exists>i. en_id ex = Some i \<and> i \<in> e_id ` set (exercise ?s1)"
    using ref by simp
  from forEach_insert_ok [OF this, of date] obtain new seq where new:
      "forEach_insert (Some date) E ?s1
         = (Inr (), ?s1\<lparr>workout := workout ?s1 @ new, workout_seq := seq\<rparr>)"
      "map entry_of new = E" "\<forall>w \<in> set new. w_date w = date" "sorted (map w_id new)"
    by blast
  let ?s' = "s\<lparr>workout := ?old @ new, workout_seq := seq\<rparr>"
  have save: "post_api_workouts (Some date) (JArr E) s = (json (Ack \<lparr>success = True\<rparr>), ?s')"
    using new(1)
    by (simp add: post_api_workouts_def transaction_def save_fn_def run_delete_workout_def
          catch_500_def)
  have sel: "sort_key w_id (filter (\<lambda>w. w_date w = date) (workout ?s')) = new"
    using filter_date_new [OF new(3)] new(4) by (simp add: sort_key_id_if_sorted)
  have "\<forall>w \<in> set new. w_exercise_id w \<in> e_id ` set (exercise s)"
    using entries_reference [OF ref new(2)] .
  from join_all [OF pk this] obtain rows where rows:
      "concat (map (\<lambda>w. map (\<lambda>e. \<lparr>w_id = w_id w, w_date = w_date w,
                                       w_exercise_id = w_exercise_id w,
                                       w_duration = w_duration w,
                                       wj_name = e_name e, wj_gif = e_gif e\<rparr>)
                                (filter (\<lambda>e. e_id e = w_exercise_id w) (exercise s))) new) = rows"
      "map workout_row.truncate rows = new"
    by blast
  have "get_api_workouts date ?s' = (json (WorkoutRows rows), ?s')"
    using sel rows(1)
    by (simp add: get_api_workouts_def all_workout_join_def catch_500_def)
  moreover have "map entry_of rows = E"
    using map_entry_of_truncate [OF rows(2)] new(2) by simp
  ultimately show ?thesis using save by blast
qed

text \<open>
  C1, as the claim states it, fails in the hosted store, whose column \<^verbatim>\<open>duration\<close> is a
  32-bit INTEGER: for the entry \<^verbatim>\<open>{id: 1, duration: 2147483648}\<close>, which references
  an existing exercise, \<^verbatim>\<open>saveWorkout\<close> throws, and the read that follows does not
  return the entry.
\<close>

theorem saveWorkout_duration_out_of_range:
  "1 \<in> e_id ` set (exercise sample_store)
   \<and> fst (saveWorkout ''2024-01-01'' big_duration_entries sample_store)
       = Inl numeric_out_of_range
   \<and> getWorkoutByDate ''2024-01-01''
        (snd (saveWorkout ''2024-01-01'' big_duration_entries sample_store)) = Inr []"
  by (simp add: saveWorkout_def delete_workout_eq_date_def insert_workout_def
        check_workout_insert_def varchar_def int4_column_def int4_opt_def int4_def
        getWorkoutByDate_def select_workout_embedded_eq_date_def
        big_duration_entries_def sample_store_def pushups_def squats_def)

text \<open>
  C1, amended. Take a list \<open>E\<close> of entries that each reference an existing exercise, in
  a store whose exercise ids are a primary key. In the hosted store, let the date fit
  its column (a valid date, YYYY-MM-DD, has 10 characters), let the ids and the
  durations of \<open>E\<close> be 32-bit integers, as the INTEGER columns are, and let the id
  sequence be not behind the ids in use (which \<^verbatim>\<open>saveWorkout\<close> preserves) and have room
  for the new rows. Then \<^verbatim>\<open>saveWorkout\<close> succeeds, and \<^verbatim>\<open>getWorkoutByDate\<close> on the store
  that it left returns rows whose exercise ids and durations are those of \<open>E\<close>, entry by
  entry, and nothing else: no row of an earlier save for that date is left. In the
  embedded store the same holds of \<^verbatim>\<open>POST /api/workouts\<close> followed by
  \<^verbatim>\<open>GET /api/workouts/:date\<close>, for every date and every such \<open>E\<close>.
\<close>

theorem saveWorkout_replaces_workout:
  assumes "\<forall>ex \<in> set E. \<exists>i. en_id ex = Some i \<and> i \<in> e_id ` set (exercise s)"
    and "distinct (map e_id (exercise s))"
  shows "(length date \<le> 10
          \<and> (\<forall>ex \<in> set E. int4_opt (en_id ex) \<and> int4_opt (en_duration ex))
          \<and> (\<forall>w \<in> set (workout s). w_id w \<le> workout_seq s)
          \<and> workout_seq s + int (length E) \<le> 2147483647
          \<longrightarrow> (\<exists>s' rows. saveWorkout date E s = (Inr \<lparr>success = True\<rparr>, s')
                 \<and> getWorkoutByDate date s' = Inr rows \<and> map entry_of rows = E))
       \<and> (\<exists>s' rows. post_api_workouts (Some date) (JArr E) s
                       = (json (Ack \<lparr>success = True\<rparr>), s')
            \<and> get_api_workouts date s' = (json (WorkoutRows rows), s')
            \<and> map entry_of rows = E)"
proof (intro conjI impI)
  assume "length date \<le> 10
          \<and> (\<forall>ex \<in> set E. int4_opt (en_id ex) \<and> int4_opt (en_duration ex))
          \<and> (\<forall>w \<in> set (workout s). w_id w \<le> workout_seq s)
          \<and> workout_seq s + int (length E) \<le> 2147483647"
  then show "\<exists>s' rows. saveWorkout date E s = (Inr \<lparr>success = True\<rparr>, s')
                 \<and> getWorkoutByDate date s' = Inr rows \<and> map entry_of rows = E"
    using saveWorkout_replaces [OF _ assms(1)] by blast
next
  show "\<exists>s' rows. post_api_workouts (Some date) (JArr E) s
                       = (json (Ack \<lparr>success = True\<rparr>), s')
            \<and> get_api_workouts date s' = (json (WorkoutRows rows), s')
            \<and> map entry_of rows = E"
    using post_api_workouts_replaces [OF assms] .
qed

theorem saveWorkout_replaces_workout_witness:
  "length ''2024-01-01'' \<le> 10
   \<and> distinct (map e_id (exercise sample_store))
   \<and> list_all (\<lambda>ex. int4_opt (en_id ex) \<and> int4_opt (en_duration ex)) new_entries
   \<and> workout_seq sample_store + int (length new_entries) \<le> 2147483647
   \<and> workout (snd (saveWorkout ''2024-01-01'' new_entries sample_store))
       = [\<lparr>w_id = 2, w_date = ''2024-01-02'', w_exercise_id = 2, w_duration = Some 30\<rparr>,
          \<lparr>w_id = 4, w_date = ''2024-01-01'', w_exercise_id = 2, w_duration = Some 45\<rparr>,
          \<lparr>w_id = 5, w_date = ''2024-01-01'', w_exercise_id = 1, w_duration = None\<rparr>]
   \<and> (\<exists>s' rows. saveWorkout ''2024-01-01'' new_entries sample_store
                    = (Inr \<lparr>success = True\<rparr>, s')
          \<and> getWorkoutByDate ''2024-01-01'' s' = Inr rows \<and> map entry_of rows = new_entries)
   \<and> (\<exists>s' rows. post_api_workouts (Some ''2024-01-01'') (JArr new_entries) sample_store
                    = (json (Ack \<lparr>success = True\<rparr>), s')
          \<and> get_api_workouts ''2024-01-01'' s' = (json (WorkoutRows rows), s')
          \<and> map entry_of rows = new_entries)"
proof -
  have h1: "length ''2024-01-01'' \<le> 10" by simp
  have h2: "\<forall>ex \<in> set new_entries. \<exists>i. en_id ex = Some i \<and> i \<in> e_id ` set (exercise sample_store)"
    by (simp add: new_entries_def sample_store_def pushups_def squats_def)
  have h3: "\<forall>w \<in> set (workout sample_store). w_id w \<le> workout_seq sample_store"
    by (simp add: sample_store_def)
  have h4: "distinct (map e_id (exercise sample_store))"
    by (simp add: sample_store_def pushups_def squats_def)
  have h5: "\<forall>ex \<in> set new_entries. int4_opt (en_id ex) \<and> int4_opt (en_duration ex)"
    by (simp add: new_entries_def int4_opt_def int4_def)
  then have h5': "list_all (\<lambda>ex. int4_opt (en_id ex) \<and> int4_opt (en_duration ex)) new_entries"
    by (simp add: list_all_iff)
  have h6: "workout_seq sample_store + int (length new_entries) \<le> 2147483647"
    by (simp add: new_entries_def sample_store_def)
  have run: "workout (snd (saveWorkout ''2024-01-01'' new_entries sample_store))
       = [\<lparr>w_id = 2, w_date = ''2024-01-02'', w_exercise_id = 2, w_duration = Some 30\<rparr>,
          \<lparr>w_id = 4, w_date = ''2024-01-01'', w_exercise_id = 2, w_duration = Some 45\<rparr>,
          \<lparr>w_id = 5, w_date = ''2024-01-01'', w_exercise_id = 1, w_duration = None\<rparr>]"
    by (simp add: saveWorkout_def delete_workout_eq_date_def insert_workout_def
          check_workout_insert_def varchar_def int4_column_def int4_opt_def int4_def
          new_entries_def sample_store_def pushups_def squats_def)
  show ?thesis
    using saveWorkout_replaces_workout [OF h2 h4, of "''2024-01-01''"] h1 h3 h4 h5 h5' h6 run
    by blast
qed

section \<open>Saving an empty workout\<close>

text \<open>
  C10. An empty \<^verbatim>\<open>exercises\<close> array is accepted, for every date and store: the rows of
  the date are deleted, the other rows and the exercises stay, nothing is inserted, the
  save reports success, and reading the date back returns the empty list. This holds of
  \<^verbatim>\<open>saveWorkout\<close>, of the handler that calls it (an empty array is truthy and is an
  array, so it passes the validation), and of \<^verbatim>\<open>POST /api/workouts\<close>.
\<close>

theorem saveWorkout_empty_clears:
  "(\<exists>s'. saveWorkout date [] s = (Inr \<lparr>success = True\<rparr>, s')
       \<and> workout s' = filter (\<lambda>w. w_date w \<noteq> date) (workout s)
       \<and> exercise s' = exercise s
       \<and> getWorkoutByDate date s' = Inr [])
   \<and> (rq_method req = ''POST'' \<and> q_action req = Some ''workout'' \<and> q_date req = Some date
        \<and> date \<noteq> [] \<and> b_exercises req = JArr []
      \<longrightarrow> api_workout req s = (json (Ack \<lparr>success = True\<rparr>), snd (saveWorkout date [] s)))
   \<and> (\<exists>s'. post_api_workouts (Some date) (JArr []) s = (json (Ack \<lparr>success = True\<rparr>), s')
       \<and> workout s' = filter (\<lambda>w. w_date w \<noteq> date) (workout s)
       \<and> exercise s' = exercise s
       \<and> get_api_workouts date s' = (json (WorkoutRows []), s'))"
proof (intro conjI impI)
  show "\<exists>s'. saveWorkout date [] s = (Inr \<lparr>success = True\<rparr>, s')
       \<and> workout s' = filter (\<lambda>w. w_date w \<noteq> date) (workout s)
       \<and> exercise s' = exercise s
       \<and> getWorkoutByDate date s' = Inr []"
    by (simp add: saveWorkout_def delete_workout_eq_date_def insert_workout_def
          getWorkoutByDate_def select_workout_embedded_eq_date_def filter_date_gone)
next
  assume "rq_method req = ''POST'' \<and> q_action req = Some ''workout'' \<and> q_date req = Some date
        \<and> date \<noteq> [] \<and> b_exercises req = JArr []"
  then show "api_workout req s = (json (Ack \<lparr>success = True\<rparr>), snd (saveWorkout date [] s))"
    by (simp add: api_workout_def handle_POST_def truthy_str_def
          saveWorkout_def delete_workout_eq_date_def insert_workout_def)
next
  show "\<exists>s'. post_api_workouts (Some date) (JArr []) s = (json (Ack \<lparr>success = True\<rparr>), s')
       \<and> workout s' = filter (\<lambda>w. w_date w \<noteq> date) (workout s)
       \<and> exercise s' = exercise s
       \<and> get_api_workouts date s' = (json (WorkoutRows []), s')"
    by (simp add: post_api_workouts_def transaction_def save_fn_def run_delete_workout_def
          catch_500_def get_api_workouts_def all_workout_join_def filter_date_gone)
qed

theorem saveWorkout_empty_clears_witness:
  "api_workout post_empty_workout sample_store
     = (json (Ack \<lparr>success = True\<rparr>),
        sample_store\<lparr>workout :=
          [\<lparr>w_id = 2, w_date = ''2024-01-02'', w_exercise_id = 2, w_duration = Some 30\<rparr>]\<rparr>)
   \<and> getWorkoutByDate ''2024-01-01''
        (sample_store\<lparr>workout :=
          [\<lparr>w_id = 2, w_date = ''2024-01-02'', w_exercise_id = 2, w_duration = Some 30\<rparr>]\<rparr>)
     = Inr []"
proof -
  have req: "rq_method post_empty_workout = ''POST'' \<and> q_action post_empty_workout = Some ''workout''
      \<and> q_date post_empty_workout = Some ''2024-01-01'' \<and> ''2024-01-01'' \<noteq> []
      \<and> b_exercises post_empty_workout = JArr []"
    by (simp add: post_empty_workout_def)
  have left: "snd (saveWorkout ''2024-01-01'' [] sample_store)
      = sample_store\<lparr>workout :=
          [\<lparr>w_id = 2, w_date = ''2024-01-02'', w_exercise_id = 2, w_duration = Some 30\<rparr>]\<rparr>"
    by (simp add: saveWorkout_def delete_workout_eq_date_def insert_workout_def sample_store_def)
  from saveWorkout_empty_clears [of "''2024-01-01''" sample_store post_empty_workout]
  have "\<exists>s'. saveWorkout ''2024-01-01'' [] sample_store = (Inr \<lparr>success = True\<rparr>, s')
          \<and> getWorkoutByDate ''2024-01-01'' s' = Inr []"
    and "api_workout post_empty_workout sample_store
          = (json (Ack \<lparr>success = True\<rparr>), snd (saveWorkout ''2024-01-01'' [] sample_store))"
    using req by blast+
  with left show ?thesis by auto
qed

section \<open>The save of the embedded store is one transaction\<close>

text \<open>
  The adapter of the hosted store deletes and inserts in two statements: when the insert
  fails, the rows of the date are gone.
\<close>

lemma saveWorkout_delete_then_failed_insert:
  "saveWorkout ''2024-01-01'' failing_entries sample_store =
     (Inl foreign_key_violation,
      sample_store\<lparr>workout :=
          [\<lparr>w_id = 2, w_date = ''2024-01-02'', w_exercise_id = 2, w_duration = Some 30\<rparr>]\<rparr>)"
  by (simp add: saveWorkout_def delete_workout_eq_date_def insert_workout_def
        check_workout_insert_def varchar_def int4_column_def int4_opt_def int4_def
        failing_entries_def sample_store_def pushups_def squats_def)

text \<open>
  Inside the transaction the store does pass through partial states: here the rows of
  2024-01-01 are deleted and the first entry is inserted when the second one fails.
\<close>

lemma save_fn_partial_state:
  "save_fn (Some ''2024-01-01'') (JArr failing_entries) sample_store =
     (Inl foreign_key_failed,
      sample_store\<lparr>workout :=
          [\<lparr>w_id = 2, w_date = ''2024-01-02'', w_exercise_id = 2, w_duration = Some 30\<rparr>,
           \<lparr>w_id = 4, w_date = ''2024-01-01'', w_exercise_id = 2, w_duration = Some 45\<rparr>],
        workout_seq := 4\<rparr>)"
  by (simp add: save_fn_def failing_entries_def sample_store_def run_delete_workout_def
        run_insert_workout_def pushups_def squats_def)

text \<open>
  C3. Whatever the date, the \<^verbatim>\<open>exercises\<close> of the body and the store,
  \<^verbatim>\<open>POST /api/workouts\<close> ends in one of two ways. Either it answers 500 and the store is
  the one it started from, so the date has its complete old rows; or it answers 200,
  \<^verbatim>\<open>exercises\<close> is an array, the rows of the date are its entries, all of them and in
  their order, and the rows of the other dates and the exercises are as before. No
  store between the two is left behind, also when an insertion fails partway.
\<close>

theorem post_api_workouts_atomic:
  "\<exists>res s'. post_api_workouts date exercises s = (res, s') \<and>
     ((status res = 500 \<and> s' = s) \<or>
      (status res = 200 \<and> exercise s' = exercise s \<and>
       (\<exists>xs. exercises = JArr xs
          \<and> map entry_of (filter (\<lambda>w. Some (w_date w) = date) (workout s')) = xs
          \<and> filter (\<lambda>w. Some (w_date w) \<noteq> date) (workout s')
              = filter (\<lambda>w. Some (w_date w) \<noteq> date) (workout s))))"
proof (cases "save_fn date exercises s")
  case (Pair r s1)
  show ?thesis
  proof (cases r)
    case (Inl e)
    with Pair have "post_api_workouts date exercises s
                      = (status_json 500 (ErrorBody (message e)), s)"
      by (simp add: post_api_workouts_def transaction_def catch_500_def)
    then show ?thesis by (simp add: status_json_def)
  next
    case (Inr u)
    with Pair have run: "save_fn date exercises s = (Inr u, s1)" by simp
    from save_fn_InrD [OF run] obtain xs new seq where new:
        "exercises = JArr xs"
        "s1 = s\<lparr>workout := filter (\<lambda>w. Some (w_date w) \<noteq> date) (workout s) @ new,
                     workout_seq := seq\<rparr>"
        "map entry_of new = xs" "\<forall>w \<in> set new. Some (w_date w) = date"
      by blast
    have "post_api_workouts date exercises s = (json (Ack \<lparr>success = True\<rparr>), s1)"
      using run by (simp add: post_api_workouts_def transaction_def catch_500_def)
    moreover have "status (json (Ack \<lparr>success = True\<rparr>)) = 200" by (simp add: json_def)
    moreover have "exercise s1 = exercise s" using new(2) by simp
    moreover have "map entry_of (filter (\<lambda>w. Some (w_date w) = date) (workout s1)) = xs"
      using new(2,3) filter_new_rows [OF new(4)] by simp
    moreover have "filter (\<lambda>w. Some (w_date w) \<noteq> date) (workout s1)
              = filter (\<lambda>w. Some (w_date w) \<noteq> date) (workout s)"
      using new(2) filter_new_rows [OF new(4)] by simp
    ultimately show ?thesis using new(1) by auto
  qed
qed

theorem post_api_workouts_atomic_witness:
  "post_api_workouts (Some ''2024-01-01'') (JArr failing_entries) sample_store
     = (status_json 500 (ErrorBody ''FOREIGN KEY constraint failed''), sample_store)
   \<and> (\<exists>res s'. post_api_workouts (Some ''2024-01-01'') (JArr failing_entries) sample_store
                  = (res, s') \<and>
     ((status res = 500 \<and> s' = sample_store) \<or>
      (status res = 200 \<and> exercise s' = exercise sample_store \<and>
       (\<exists>xs. JArr failing_entries = JArr xs
          \<and> map entry_of (filter (\<lambda>w. Some (w_date w) = Some ''2024-01-01'') (workout s')) = xs
          \<and> filter (\<lambda>w. Some (w_date w) \<noteq> Some ''2024-01-01'') (workout s')
              = filter (\<lambda>w. Some (w_date w) \<noteq> Some ''2024-01-01'') (workout sample_store)))))"
proof -
  have "post_api_workouts (Some ''2024-01-01'') (JArr failing_entries) sample_store
     = (status_json 500 (ErrorBody ''FOREIGN KEY constraint failed''), sample_store)"
    by (simp add: post_api_workouts_def transaction_def catch_500_def save_fn_partial_state
          foreign_key_failed_def)
  then show ?thesis
    using post_api_workouts_atomic [of "Some ''2024-01-01''" "JArr failing_entries" sample_store]
    by blast
qed

section \<open>The workout of a date, in order, with its exercises\<close>

text \<open>
  C8. In a store where every workout row references an existing exercise (and the
  exercise ids are a primary key), reading a date returns rows that are sorted by id
  ascending, that are, without the added fields, exactly the rows of \<^verbatim>\<open>workout\<close> with
  that date, and that each carry, as flat fields, the name and the gif of the exercise
  with the row's \<^verbatim>\<open>exercise_id\<close>. This holds of \<^verbatim>\<open>getWorkoutByDate\<close> and of
  \<^verbatim>\<open>GET /api/workouts/:date\<close>.
\<close>

theorem getWorkoutByDate_sorted_enriched:
  assumes "\<forall>w \<in> set (workout s). w_exercise_id w \<in> e_id ` set (exercise s)"
    and "distinct (map e_id (exercise s))"
  shows "(\<exists>rows. getWorkoutByDate date s = Inr rows
           \<and> sorted (map w_id rows)
           \<and> mset (map workout_row.truncate rows)
               = mset (filter (\<lambda>w. w_date w = date) (workout s))
           \<and> (\<forall>r \<in> set rows. \<exists>e \<in> set (exercise s). e_id e = w_exercise_id r
                  \<and> wf_name r = e_name e \<and> wf_gif r = e_gif e))
       \<and> (\<exists>rows. get_api_workouts date s = (json (WorkoutRows rows), s)
           \<and> sorted (map w_id rows)
           \<and> mset (map workout_row.truncate rows)
               = mset (filter (\<lambda>w. w_date w = date) (workout s))
           \<and> (\<forall>r \<in> set rows. \<exists>e \<in> set (exercise s). e_id e = w_exercise_id r
                  \<and> wj_name r = e_name e \<and> wj_gif r = e_gif e))"
  using getWorkoutByDate_props [OF assms(1), of date] get_api_workouts_props [OF assms, of date]
  by blast

theorem getWorkoutByDate_sorted_enriched_witness:
  "distinct (map e_id (exercise sample_store))
   \<and> getWorkoutByDate ''2024-01-01'' sample_store
       = Inr [\<lparr>w_id = 1, w_date = ''2024-01-01'', w_exercise_id = 1, w_duration = Some 60,
               wx_exercise = Some \<lparr>x_name = ''Pushups'', x_gif = Some ''http://x/push.gif''\<rparr>,
               wf_name = ''Pushups'', wf_gif = Some ''http://x/push.gif''\<rparr>,
              \<lparr>w_id = 3, w_date = ''2024-01-01'', w_exercise_id = 2, w_duration = None,
               wx_exercise = Some \<lparr>x_name = ''Squats'', x_gif = None\<rparr>,
               wf_name = ''Squats'', wf_gif = None\<rparr>]
   \<and> (\<exists>rows. get_api_workouts ''2024-01-01'' sample_store = (json (WorkoutRows rows), sample_store)
           \<and> sorted (map w_id rows)
           \<and> mset (map workout_row.truncate rows)
               = mset (filter (\<lambda>w. w_date w = ''2024-01-01'') (workout sample_store))
           \<and> (\<forall>r \<in> set rows. \<exists>e \<in> set (exercise sample_store). e_id e = w_exercise_id r
                  \<and> wj_name r = e_name e \<and> wj_gif r = e_gif e))"
proof -
  have fk: "\<forall>w \<in> set (workout sample_store). w_exercise_id w \<in> e_id ` set (exercise sample_store)"
    by (simp add: sample_store_def pushups_def squats_def)
  have pk: "distinct (map e_id (exercise sample_store))"
    by (simp add: sample_store_def pushups_def squats_def)
  have run: "getWorkoutByDate ''2024-01-01'' sample_store
       = Inr [\<lparr>w_id = 1, w_date = ''2024-01-01'', w_exercise_id = 1, w_duration = Some 60,
               wx_exercise = Some \<lparr>x_name = ''Pushups'', x_gif = Some ''http://x/push.gif''\<rparr>,
               wf_name = ''Pushups'', wf_gif = Some ''http://x/push.gif''\<rparr>,
              \<lparr>w_id = 3, w_date = ''2024-01-01'', w_exercise_id = 2, w_duration = None,
               wx_exercise = Some \<lparr>x_name = ''Squats'', x_gif = None\<rparr>,
               wf_name = ''Squats'', wf_gif = None\<rparr>]"
    by (simp add: getWorkoutByDate_def select_workout_embedded_eq_date_def sample_store_def
          embed_exercise_def flatten_def pushups_def squats_def)
  show ?thesis
    using getWorkoutByDate_sorted_enriched [OF fk pk, of "''2024-01-01''"] pk run by blast
qed

section \<open>Deleting the workout of a date\<close>

text \<open>
  C9. For every date and store, deleting the workout of the date succeeds; the
  acknowledgment carries the number of rows that had the date, which is the number of
  rows by which the table shrinks (0 when there was none); afterwards the table holds
  the rows of the other dates, so no row with that date, and the exercises are as
  before. This holds of \<^verbatim>\<open>deleteWorkout\<close> and of \<^verbatim>\<open>DELETE /api/workouts/:date\<close>.
\<close>

theorem deleteWorkout_count:
  "(\<exists>s'. deleteWorkout date s =
           (Inr \<lparr>success = True,
                 deletedRows = length (filter (\<lambda>w. w_date w = date) (workout s))\<rparr>, s')
       \<and> workout s' = filter (\<lambda>w. w_date w \<noteq> date) (workout s)
       \<and> date \<notin> w_date ` set (workout s')
       \<and> exercise s' = exercise s
       \<and> length (workout s) - length (workout s')
           = length (filter (\<lambda>w. w_date w = date) (workout s)))
   \<and> (\<exists>s'. delete_api_workouts date s =
           (json (DeleteWorkoutAck
              \<lparr>success = True,
                deletedRows = length (filter (\<lambda>w. w_date w = date) (workout s))\<rparr>), s')
       \<and> workout s' = filter (\<lambda>w. w_date w \<noteq> date) (workout s)
       \<and> date \<notin> w_date ` set (workout s')
       \<and> exercise s' = exercise s
       \<and> length (workout s) - length (workout s')
           = length (filter (\<lambda>w. w_date w = date) (workout s)))"
proof -
  have len: "length (workout s) - length (filter (\<lambda>w. w_date w \<noteq> date) (workout s))
               = length (filter (\<lambda>w. w_date w = date) (workout s))"
    using sum_length_filter_compl [of "\<lambda>w. w_date w = date" "workout s"] by simp
  have gone: "date \<notin> w_date ` set (filter (\<lambda>w. w_date w \<noteq> date) (workout s))"
    by auto
  have "\<exists>s'. deleteWorkout date s =
           (Inr \<lparr>success = True,
                 deletedRows = length (filter (\<lambda>w. w_date w = date) (workout s))\<rparr>, s')
       \<and> workout s' = filter (\<lambda>w. w_date w \<noteq> date) (workout s)
       \<and> date \<notin> w_date ` set (workout s')
       \<and> exercise s' = exercise s
       \<and> length (workout s) - length (workout s')
           = length (filter (\<lambda>w. w_date w = date) (workout s))"
    using len gone by (simp add: deleteWorkout_def delete_workout_eq_date_def)
  moreover have "\<exists>s'. delete_api_workouts date s =
           (json (DeleteWorkoutAck
              \<lparr>success = True,
                deletedRows = length (filter (\<lambda>w. w_date w = date) (workout s))\<rparr>), s')
       \<and> workout s' = filter (\<lambda>w. w_date w \<noteq> date) (workout s)
       \<and> date \<notin> w_date ` set (workout s')
       \<and> exercise s' = exercise s
       \<and> length (workout s) - length (workout s')
           = length (filter (\<lambda>w. w_date w = date) (workout s))"
    using len gone by (simp add: delete_api_workouts_def run_delete_workout_def catch_500_def)
  ultimately show ?thesis by blast
qed

theorem deleteWorkout_count_witness:
  "deleteWorkout ''2024-01-01'' sample_store
     = (Inr \<lparr>success = True, deletedRows = 2\<rparr>,
        sample_store\<lparr>workout :=
          [\<lparr>w_id = 2, w_date = ''2024-01-02'', w_exercise_id = 2, w_duration = Some 30\<rparr>]\<rparr>)
   \<and> deleteWorkout ''2024-03-03'' sample_store
     = (Inr \<lparr>success = True, deletedRows = 0\<rparr>, sample_store)
   \<and> (\<exists>s'. delete_api_workouts ''2024-01-01'' sample_store =
           (json (DeleteWorkoutAck
              \<lparr>success = True,
                deletedRows = length (filter (\<lambda>w. w_date w = ''2024-01-01'')
                                        (workout sample_store))\<rparr>), s')
       \<and> ''2024-01-01'' \<notin> w_date ` set (workout s'))"
proof -
  have "deleteWorkout ''2024-01-01'' sample_store
     = (Inr \<lparr>success = True, deletedRows = 2\<rparr>,
        sample_store\<lparr>workout :=
          [\<lparr>w_id = 2, w_date = ''2024-01-02'', w_exercise_id = 2, w_duration = Some 30\<rparr>]\<rparr>)"
    by (simp add: deleteWorkout_def delete_workout_eq_date_def sample_store_def)
  moreover have "deleteWorkout ''2024-03-03'' sample_store
     = (Inr \<lparr>success = True, deletedRows = 0\<rparr>, sample_store)"
    by (simp add: deleteWorkout_def delete_workout_eq_date_def sample_store_def)
  ultimately show ?thesis
    using deleteWorkout_count [of "''2024-01-01''" sample_store] by blast
qed

section \<open>Updating an exercise that does not exist\<close>

lemma map_update_absent:
  "i \<notin> e_id ` set es \<Longrightarrow> map (\<lambda>e. if e_id e = i then f e else e) es = es"
  by (induction es) auto

lemma filter_absent: "i \<notin> e_id ` set es \<Longrightarrow> filter (\<lambda>e. e_id e = i) es = []"
  by (induction es) auto

lemma updateExercise_absent:
  "i \<notin> e_id ` set (exercise s) \<Longrightarrow> int4 i \<Longrightarrow>
     updateExercise (Some i) name gif s = (Inr \<lparr>success = True, updated = False\<rparr>, s)"
  by (simp add: updateExercise_def update_exercise_eq_id_def int4_filter_def filter_absent)

lemma parseInt_nonempty: "parseInt str = Some i \<Longrightarrow> str \<noteq> []"
  by (auto simp: parseInt_def)

lemma put_api_exercises_absent:
  assumes "i \<notin> e_id ` set (exercise s)"
  shows "put_api_exercises (Some i) name gif s
           = (status_json 404 (ErrorBody ''Exercise not found''), s)"
proof -
  have "filter (\<lambda>e. Some (e_id e) = Some i) (exercise s) = []"
    using assms by (auto simp: filter_empty_conv)
  then show ?thesis
    by (simp add: put_api_exercises_def run_update_exercise_def catch_500_def)
qed

text \<open>
  C7, as the claim states it, fails in the hosted store, whose column \<^verbatim>\<open>id\<close> is a 32-bit
  integer: no exercise has the id 2147483648, the store refuses the filter on it,
  \<^verbatim>\<open>updateExercise\<close> throws, and the handler answers
  \<^verbatim>\<open>PUT /api/workout?action=exercise&id=2147483648\<close> with 500.
\<close>

theorem updateExercise_id_out_of_range:
  "2147483648 \<notin> e_id ` set (exercise sample_store)
   \<and> updateExercise (Some 2147483648) ''Plank'' ''http://x/plank.gif'' sample_store
       = (Inl numeric_out_of_range, sample_store)
   \<and> status (fst (api_workout put_out_of_range sample_store)) = 500"
  by (simp add: updateExercise_def update_exercise_eq_id_def int4_filter_def int4_def
        api_workout_def handle_PUT_def put_out_of_range_def truthy_str_def
        parseInt_def is_space_def digit_of_def status_json_def
        sample_store_def pushups_def squats_def)

text \<open>
  C7, amended. Let \<open>i\<close> be an id that no row of \<^verbatim>\<open>exercise\<close> has. In the hosted store,
  when \<open>i\<close> is a 32-bit integer, as the column \<^verbatim>\<open>id\<close> is, \<^verbatim>\<open>updateExercise\<close> returns
  \<^verbatim>\<open>{success: true, updated: false}\<close> and leaves the store as it was, so no row is
  created and the table is unchanged, and the handler answers a PUT for that id (the id
  parameter parses to \<open>i\<close>, and the name and the gif pass the validation that precedes
  the update) with 404 and leaves the store as it was. In the embedded store
  \<^verbatim>\<open>PUT /api/exercises/:id\<close> answers 404 and leaves the store as it was for every such
  \<open>i\<close>, whatever name and gif it is given, also for an id parameter that is not a
  number.
\<close>

theorem updateExercise_absent_id:
  assumes "i \<notin> e_id ` set (exercise s)"
  shows "(int4 i \<longrightarrow>
            updateExercise (Some i) name gif s = (Inr \<lparr>success = True, updated = False\<rparr>, s)
          \<and> (rq_method req = ''PUT'' \<and> q_action req = Some ''exercise''
                \<and> q_id req = Some str \<and> parseInt str = Some i
                \<and> truthy_str (b_name req) \<and> truthy_str (b_gif req)
              \<longrightarrow> api_workout req s = (status_json 404 (ErrorBody ''Exercise not found''), s)))
       \<and> put_api_exercises (Some i) name' gif' s
           = (status_json 404 (ErrorBody ''Exercise not found''), s)
       \<and> put_api_exercises None name' gif' s
           = (status_json 404 (ErrorBody ''Exercise not found''), s)"
proof (intro conjI impI)
  show "put_api_exercises None name' gif' s
           = (status_json 404 (ErrorBody ''Exercise not found''), s)"
    by (simp add: put_api_exercises_def run_update_exercise_def catch_500_def)
next
  assume "int4 i"
  with assms show "updateExercise (Some i) name gif s
                     = (Inr \<lparr>success = True, updated = False\<rparr>, s)"
    by (rule updateExercise_absent)
next
  assume fit: "int4 i"
  assume req: "rq_method req = ''PUT'' \<and> q_action req = Some ''exercise''
            \<and> q_id req = Some str \<and> parseInt str = Some i
            \<and> truthy_str (b_name req) \<and> truthy_str (b_gif req)"
  then have "str \<noteq> []" using parseInt_nonempty by blast
  with req show "api_workout req s = (status_json 404 (ErrorBody ''Exercise not found''), s)"
    by (simp add: api_workout_def handle_PUT_def truthy_str_def
          updateExercise_absent [OF assms fit])
next
  show "put_api_exercises (Some i) name' gif' s
           = (status_json 404 (ErrorBody ''Exercise not found''), s)"
    using assms by (rule put_api_exercises_absent)
qed

theorem updateExercise_absent_id_witness:
  "7 \<notin> e_id ` set (exercise sample_store)
   \<and> int4 7
   \<and> updateExercise (Some 7) ''Plank'' ''http://x/plank.gif'' sample_store
       = (Inr \<lparr>success = True, updated = False\<rparr>, sample_store)
   \<and> api_workout put_plank sample_store
       = (status_json 404 (ErrorBody ''Exercise not found''), sample_store)
   \<and> put_api_exercises (Some 7) (Some ''Plank'') None sample_store
       = (status_json 404 (ErrorBody ''Exercise not found''), sample_store)"
proof -
  have absent: "7 \<notin> e_id ` set (exercise sample_store)"
    by (simp add: sample_store_def pushups_def squats_def)
  have fit: "int4 7" by (simp add: int4_def)
  have parse: "parseInt ''7'' = Some 7"
    by (simp add: parseInt_def is_space_def digit_of_def)
  have req: "rq_method put_plank = ''PUT'' \<and> q_action put_plank = Some ''exercise''
            \<and> q_id put_plank = Some ''7'' \<and> parseInt ''7'' = Some 7
            \<and> truthy_str (b_name put_plank) \<and> truthy_str (b_gif put_plank)"
    using parse by (simp add: put_plank_def truthy_str_def)
  show ?thesis
    using updateExercise_absent_id [OF absent, of "''Plank''" "''http://x/plank.gif''"
        put_plank "''7''" "Some ''Plank''" None] absent fit req
    by blast
qed

section \<open>Deleting an exercise that workouts reference\<close>

text \<open>
  The adapter refuses the deletion and keeps the store, and deletes an unreferenced
  exercise; the route of the embedded store answers the refusal with 400.
\<close>

lemma deleteExercise_referenced:
  assumes "\<exists>w \<in> set (workout s). w_exercise_id w = i" and "int4 i"
  shows "deleteExercise (Some i) s
           = (Inl (Error None ''Cannot delete exercise that is used in workouts''), s)"
proof -
  have "filter (\<lambda>w. w_exercise_id w = i) (workout s) \<noteq> []"
    using assms(1) by (auto simp: filter_empty_conv)
  then show ?thesis
    using assms(2)
    by (simp add: deleteExercise_def select_workout_id_eq_exercise_id_def int4_filter_def)
qed

lemma deleteExercise_unreferenced:
  assumes "\<forall>w \<in> set (workout s). w_exercise_id w \<noteq> i" and "i \<in> e_id ` set (exercise s)"
    and "int4 i"
  shows "deleteExercise (Some i) s
           = (Inr \<lparr>success = True, deleted = True\<rparr>,
              s\<lparr>exercise := filter (\<lambda>e. e_id e \<noteq> i) (exercise s)\<rparr>)"
proof -
  have "filter (\<lambda>w. w_exercise_id w = i) (workout s) = []"
    using assms(1) by (auto simp: filter_empty_conv)
  moreover have "filter (\<lambda>e. e_id e = i) (exercise s) \<noteq> []"
    using assms(2) by (auto simp: filter_empty_conv)
  moreover have "\<not> (\<exists>w \<in> set (workout s). w_exercise_id w = i)"
    using assms(1) by blast
  ultimately show ?thesis
    using assms(3)
    by (simp add: deleteExercise_def select_workout_id_eq_exercise_id_def
          delete_exercise_eq_id_def int4_filter_def)
qed

lemma delete_api_exercises_referenced:
  assumes "\<exists>w \<in> set (workout s). w_exercise_id w = i"
  shows "delete_api_exercises (Some i) s
           = (status_json 400 (ErrorBody ''Cannot delete exercise that is used in workouts''), s)"
proof -
  have "filter (\<lambda>w. Some (w_exercise_id w) = Some i) (workout s) \<noteq> []"
    using assms by (auto simp: filter_empty_conv)
  then show ?thesis
    by (simp add: delete_api_exercises_def get_workout_count_def catch_500_def)
qed

lemma api_workout_delete_referenced:
  assumes "\<exists>w \<in> set (workout s). w_exercise_id w = i" and "int4 i"
    and "rq_method req = ''DELETE''" "q_action req = Some ''exercise''"
    and "q_id req = Some str" "parseInt str = Some i"
  shows "api_workout req s
           = (status_json 500 (ErrorBody ''Cannot delete exercise that is used in workouts''), s)"
  using assms(3-6) parseInt_nonempty [OF assms(6)]
  by (simp add: api_workout_def handle_DELETE_def truthy_str_def
        deleteExercise_referenced [OF assms(1,2)])

text \<open>
  C2. The store holds the exercise 1 and a workout row that references it. The handler
  answers \<^verbatim>\<open>DELETE /api/workout?action=exercise&id=1\<close> with the status 500: the error
  that \<^verbatim>\<open>deleteExercise\<close> throws for the conflict reaches the \<^verbatim>\<open>catch\<close> of the handler,
  which answers every error with 500. The exercise is not deleted.
\<close>

theorem api_workout_delete_conflict_500:
  "api_workout delete_pushups sample_store
     = (\<lparr>status = 500, body = ErrorBody ''Cannot delete exercise that is used in workouts''\<rparr>,
        sample_store)"
  by (simp add: api_workout_def handle_DELETE_def delete_pushups_def truthy_str_def
        parseInt_def is_space_def digit_of_def deleteExercise_def
        select_workout_id_eq_exercise_id_def int4_filter_def int4_def
        sample_store_def status_json_def)

section \<open>Validation of the body\<close>

text \<open>
  The handler of the hosted store validates the body before it calls the adapter: a
  POST with \<^verbatim>\<open>action=exercise\<close>, and a PUT with \<^verbatim>\<open>action=exercise\<close> and an id, whose name
  or gif is missing or empty is answered 400 with
  \<^verbatim>\<open>{error: "Name and gif URL are required"}\<close>, and a POST with \<^verbatim>\<open>action=workout\<close> and a
  date whose \<^verbatim>\<open>exercises\<close> is missing or is not an array is answered 400 with
  \<^verbatim>\<open>{error: "Exercises array is required"}\<close>; the store is left as it was.
\<close>

lemma api_workout_validates_exercise:
  assumes "q_action req = Some ''exercise''"
    and "\<not> truthy_str (b_name req) \<or> \<not> truthy_str (b_gif req)"
    and "rq_method req = ''POST'' \<or> (rq_method req = ''PUT'' \<and> truthy_str (q_id req))"
  shows "api_workout req s
           = (status_json 400 (ErrorBody ''Name and gif URL are required''), s)"
  using assms by (auto simp add: api_workout_def handle_POST_def handle_PUT_def)

lemma api_workout_validates_workout:
  assumes "rq_method req = ''POST''" and "q_action req = Some ''workout''"
    and "truthy_str (q_date req)" and "\<not> isArray (b_exercises req)"
  shows "api_workout req s
           = (status_json 400 (ErrorBody ''Exercises array is required''), s)"
  using assms by (simp add: api_workout_def handle_POST_def)

lemma api_workout_validates_examples:
  "api_workout post_no_gif sample_store
     = (status_json 400 (ErrorBody ''Name and gif URL are required''), sample_store)"
  "api_workout post_no_exercises sample_store
     = (status_json 400 (ErrorBody ''Exercises array is required''), sample_store)"
  by (simp_all add: api_workout_def handle_POST_def post_no_gif_def post_no_exercises_def
        truthy_str_def)

text \<open>
  The routes of the embedded store do not: whatever is not an array makes the save throw
  inside its transaction, which answers 500 and leaves the store as it was.
\<close>

lemma post_api_workouts_not_array:
  assumes "\<not> isArray exercises"
  shows "\<exists>res. post_api_workouts date exercises s = (res, s) \<and> status res = 500"
  using assms
  by (cases exercises)
    (simp_all add: post_api_workouts_def transaction_def save_fn_def run_delete_workout_def
      catch_500_def status_json_def)

text \<open>
  C4. On the embedded store the routes that create and update an exercise do not answer
  400 when the name or the gif is missing. \<^verbatim>\<open>POST /api/exercises\<close> with the body
  \<^verbatim>\<open>{"gif": "http://x/plank.gif"}\<close> is answered 500, the store unchanged; with the body
  \<^verbatim>\<open>{"name": "Plank"}\<close> it is answered 200 and the exercise is inserted without a gif.
  \<^verbatim>\<open>PUT /api/exercises/1\<close> with the body \<^verbatim>\<open>{"name": "Pushups"}\<close> is answered 200 and
  the gif of the exercise is erased; with the body \<^verbatim>\<open>{"gif": "http://x/plank.gif"}\<close> it
  is answered 500, the store unchanged.
\<close>

theorem embedded_exercise_routes_do_not_validate:
  "status (fst (post_api_exercises None (Some ''http://x/plank.gif'') sample_store)) = 500
   \<and> snd (post_api_exercises None (Some ''http://x/plank.gif'') sample_store) = sample_store
   \<and> post_api_exercises (Some ''Plank'') None sample_store
       = (\<lparr>status = 200, body = Inserted 3 (Some ''Plank'') None\<rparr>,
          sample_store\<lparr>exercise :=
            [pushups, squats, \<lparr>e_id = 3, e_name = ''Plank'', e_gif = None\<rparr>]\<rparr>)
   \<and> put_api_exercises (Some 1) (Some ''Pushups'') None sample_store
       = (\<lparr>status = 200, body = Ack \<lparr>success = True\<rparr>\<rparr>,
          sample_store\<lparr>exercise :=
            [\<lparr>e_id = 1, e_name = ''Pushups'', e_gif = None\<rparr>, squats]\<rparr>)
   \<and> status (fst (put_api_exercises (Some 1) None (Some ''http://x/plank.gif'') sample_store))
       = 500
   \<and> snd (put_api_exercises (Some 1) None (Some ''http://x/plank.gif'') sample_store)
       = sample_store"
  by (simp add: post_api_exercises_def run_insert_exercise_def next_rowid_def
        put_api_exercises_def run_update_exercise_def catch_500_def status_json_def json_def
        sample_store_def pushups_def squats_def Let_def)

text \<open>
  C5. On the embedded store \<^verbatim>\<open>POST /api/workouts\<close> does not answer 400 when
  \<^verbatim>\<open>exercises\<close> is missing or is not an array: with the body
  \<^verbatim>\<open>{"date": "2024-01-01"}\<close>, and with the body
  \<^verbatim>\<open>{"date": "2024-01-01", "exercises": "pushups"}\<close>, the call of \<^verbatim>\<open>forEach\<close> throws
  inside the transaction and the route answers 500. The store is unchanged.
\<close>

theorem embedded_workout_route_does_not_validate:
  "status (fst (post_api_workouts (Some ''2024-01-01'') JUndefined sample_store)) = 500
   \<and> snd (post_api_workouts (Some ''2024-01-01'') JUndefined sample_store) = sample_store
   \<and> status (fst (post_api_workouts (Some ''2024-01-01'') (JStr ''pushups'') sample_store))
       = 500
   \<and> snd (post_api_workouts (Some ''2024-01-01'') (JStr ''pushups'') sample_store)
       = sample_store"
  by (simp add: post_api_workouts_def transaction_def save_fn_def run_delete_workout_def
        catch_500_def status_json_def)

end
